theory Spec2Isabelle
  imports Main "HOL-Library.AList" "HOL-Library.Multiset"
begin

section \<open>Python values used by the downloaders\<close>

text \<open>
  The two downloader classes of \<^verbatim>\<open>scripts/data_collection\<close> are embedded as functions
  over an explicit world (files on disk, log records, subprocess and HTTP histories).
  What the code obtains from outside the repository (the HTTP session, the XML parser,
  the subprocesses \<^verbatim>\<open>wget\<close>, \<^verbatim>\<open>fasterq-dump\<close>, \<^verbatim>\<open>md5sum\<close>, \<^verbatim>\<open>sha256sum\<close>,
  the glob matcher, the JSON writer and the clock) is a field of the record \<open>env\<close>, so
  every theorem holds for whatever those collaborators answer.
  The disk itself never fails in the model: \<^verbatim>\<open>open\<close>, \<^verbatim>\<open>stat\<close> and \<^verbatim>\<open>unlink\<close>
  behave as on a healthy, writable file system.
\<close>

datatype exn_class =
  TimeoutExpired | RequestException | HTTPError | ParseError
  | TypeError | ValueError | IndexError | OSError | NotImplementedError

text \<open>An exception object: its class and \<^verbatim>\<open>str(e)\<close>.\<close>

datatype exn = Raised exn_class string

fun exn_str :: "exn \<Rightarrow> string" where
  "exn_str (Raised c m) = m"

fun exn_cls :: "exn \<Rightarrow> exn_class" where
  "exn_cls (Raised c m) = c"

text \<open>A name between apostrophes, as Python's messages print a type.\<close>

definition quoted :: "string \<Rightarrow> string" where
  "quoted s = [CHR 0x27] @ s @ [CHR 0x27]"

text \<open>An f-string field holding an \<^verbatim>\<open>Optional[str]\<close>: \<^verbatim>\<open>None\<close> prints as \<open>None\<close>.\<close>

fun fmt :: "string option \<Rightarrow> string" where
  "fmt None = ''None''"
| "fmt (Some s) = s"

text \<open>Truthiness of an \<^verbatim>\<open>Optional[str]\<close>: \<^verbatim>\<open>None\<close> and the empty string are falsy.\<close>

fun truthy :: "string option \<Rightarrow> bool" where
  "truthy None = False"
| "truthy (Some s) = (s \<noteq> [])"

text \<open>\<^verbatim>\<open>str(n)\<close> for an integer.\<close>

fun str_nat :: "nat \<Rightarrow> string" where
  "str_nat n =
     (if n < 10 then [char_of (48 + n)]
      else str_nat (n div 10) @ [char_of (48 + n mod 10)])"

declare str_nat.simps [simp del]

definition str_int :: "int \<Rightarrow> string" where
  "str_int i = (if i < 0 then CHR ''-'' # str_nat (nat (- i)) else str_nat (nat i))"

text \<open>\<^verbatim>\<open>str.lower()\<close> on the ASCII letters.\<close>

definition lower_char :: "char \<Rightarrow> char" where
  "lower_char c =
     (let n = (of_char c :: nat) in if 65 \<le> n \<and> n \<le> 90 then char_of (n + 32) else c)"

definition lower :: "string \<Rightarrow> string" where
  "lower s = map lower_char s"

text \<open>
  The characters \<^verbatim>\<open>str.split()\<close> treats as white space (the ASCII ones: tab, line feed,
  vertical tab, form feed, carriage return, the four separators and the blank).
\<close>

definition is_space :: "char \<Rightarrow> bool" where
  "is_space c =
     (let n = (of_char c :: nat) in (9 \<le> n \<and> n \<le> 13) \<or> (28 \<le> n \<and> n \<le> 32))"

text \<open>
  \<^verbatim>\<open>s.split()[0]\<close>: the first maximal run of non-blank characters;
  \<open>None\<close> is the \<^verbatim>\<open>IndexError\<close> of an empty or all-blank string.
\<close>

definition split_first :: "string \<Rightarrow> string option" where
  "split_first s =
     (case dropWhile is_space s of
        [] \<Rightarrow> None
      | c # cs \<Rightarrow> Some (takeWhile (\<lambda>x. \<not> is_space x) (c # cs)))"

text \<open>
  \<^verbatim>\<open>xs[:n]\<close>: Python's slice to \<open>n\<close>. A negative \<open>n\<close> counts from the end, so
  \<^verbatim>\<open>xs[:-1]\<close> drops the last element.
\<close>

definition slice_to :: "'a list \<Rightarrow> int \<Rightarrow> 'a list" where
  "slice_to xs n = (if 0 \<le> n then take (nat n) xs else take (length xs - nat (- n)) xs)"

text \<open>
  \<^verbatim>\<open>int(s)\<close> on a string: optional surrounding white space, an optional sign, decimal
  digits. \<open>None\<close> is the \<^verbatim>\<open>ValueError\<close>. (Underscores between digits and white space
  outside ASCII are not modelled: such a string is rejected here.)
\<close>

definition digit_val :: "char \<Rightarrow> nat option" where
  "digit_val c =
     (let n = (of_char c :: nat) in if 48 \<le> n \<and> n \<le> 57 then Some (n - 48) else None)"

fun parse_digits :: "nat \<Rightarrow> string \<Rightarrow> nat option" where
  "parse_digits acc [] = Some acc"
| "parse_digits acc (c # cs) =
     (case digit_val c of None \<Rightarrow> None | Some d \<Rightarrow> parse_digits (10 * acc + d) cs)"

definition parse_nat :: "string \<Rightarrow> nat option" where
  "parse_nat s = (if s = [] then None else parse_digits 0 s)"

definition py_int :: "string \<Rightarrow> int option" where
  "py_int s =
     (let t = rev (dropWhile is_space (rev (dropWhile is_space s))) in
      case t of
        [] \<Rightarrow> None
      | c # r \<Rightarrow>
          if c = CHR ''-'' then map_option (\<lambda>n. - int n) (parse_nat r)
          else if c = CHR ''+'' then map_option int (parse_nat r)
          else map_option int (parse_nat t))"

section \<open>XML element trees\<close>

text \<open>
  What \<^verbatim>\<open>xml.etree.ElementTree\<close> hands to the code: a tag, the attributes,
  the text (possibly \<^verbatim>\<open>None\<close>) and the children in document order.
\<close>

datatype xml =
  Element (elem_tag: string) (elem_attrib: "(string \<times> string) list")
    (elem_text: "string option") (elem_children: "xml list")

text \<open>The proper descendants of an element, in document order.\<close>

fun iter_desc :: "xml \<Rightarrow> xml list" where
  "iter_desc (Element t a x cs) = concat (map (\<lambda>c. c # iter_desc c) cs)"

text \<open>\<^verbatim>\<open>e.findall('.//TAG')\<close>, \<^verbatim>\<open>e.find('.//TAG')\<close>, \<^verbatim>\<open>e.findall('TAG')\<close>,
  \<^verbatim>\<open>e.find('TAG')\<close> and \<^verbatim>\<open>e.get(key)\<close>.\<close>

definition findall_desc :: "string \<Rightarrow> xml \<Rightarrow> xml list" where
  "findall_desc t e = filter (\<lambda>x. elem_tag x = t) (iter_desc e)"

definition find_desc :: "string \<Rightarrow> xml \<Rightarrow> xml option" where
  "find_desc t e = (case findall_desc t e of [] \<Rightarrow> None | x # _ \<Rightarrow> Some x)"

definition findall_child :: "string \<Rightarrow> xml \<Rightarrow> xml list" where
  "findall_child t e = filter (\<lambda>x. elem_tag x = t) (elem_children e)"

definition find_child :: "string \<Rightarrow> xml \<Rightarrow> xml option" where
  "find_child t e = find (\<lambda>x. elem_tag x = t) (elem_children e)"

definition get_attr :: "xml \<Rightarrow> string \<Rightarrow> string option" where
  "get_attr e k = map_of (elem_attrib e) k"

text \<open>\<^verbatim>\<open>e.find('TAG').text if e.find('TAG') is not None else ''\<close>.\<close>

definition child_text :: "string \<Rightarrow> xml \<Rightarrow> string option" where
  "child_text t e = (case find_child t e of None \<Rightarrow> Some [] | Some c \<Rightarrow> elem_text c)"

section \<open>Records of the archive hierarchy and of the summaries\<close>

text \<open>
  The dictionaries the code builds have fixed keys; each is a record whose fields carry
  the key names (prefixed where two dictionaries share a key). A value read from an XML
  attribute or an element text is an \<^verbatim>\<open>Optional[str]\<close>.
\<close>

record file_info =
  filename :: "string option"
  filetype :: "string option"
  checksum :: "string option"
  checksum_method :: "string option"
  unencrypted_checksum :: "string option"
  unencrypted_checksum_method :: "string option"

record ena_run =
  run_accession :: "string option"
  run_alias :: "string option"
  run_title :: "string option"
  run_instrument_platform :: "string option"
  run_instrument_model :: "string option"
  run_base_count :: "string option"
  run_read_count :: "string option"
  run_date :: "string option"
  run_files :: "file_info list"

record sample =
  smp_accession :: "string option"
  smp_title :: "string option"
  smp_description :: "string option"
  smp_taxon_id :: "string option"
  smp_submission_date :: "string option"
  smp_attributes :: "(string option \<times> string option) list"

record ena_summary =
  project_accession :: string
  total_samples :: nat
  downloaded_samples :: nat
  failed_samples :: nat
  downloaded_files :: nat
  failed_files :: nat
  errors :: "string list"

record ncbi_project =
  prj_id :: "string option"
  prj_accession :: "string option"
  prj_title :: "string option"
  prj_description :: "string option"
  prj_submission_date :: "string option"
  prj_center_name :: "string option"
  prj_sample_count :: int

record ncbi_run =
  sra_id :: "string option"
  sra_accession :: "string option"
  sra_title :: "string option"
  sra_instrument_platform :: "string option"
  sra_instrument_model :: "string option"
  sra_base_count :: int
  sra_read_count :: int
  sra_run_date :: "string option"
  sra_sample_accession :: "string option"
  sra_experiment_accession :: "string option"
  sra_study_accession :: "string option"

record ncbi_summary =
  ncbi_project_accession :: string
  total_runs :: nat
  downloaded_runs :: nat
  failed_runs :: nat
  ncbi_downloaded_files :: nat
  ncbi_failed_files :: nat
  ncbi_errors :: "string list"

section \<open>The world and the collaborators\<close>

datatype log_level = INFO | WARNING | ERROR

type_synonym fs = "(string \<times> string) list"

type_synonym params = "(string \<times> string option) list"

text \<open>
  The world the downloaders act on: the files on disk (path and content; the first entry
  of a path counts), the log records written so far, the command line of every
  \<^verbatim>\<open>subprocess.run\<close> call and the URL and parameters of every \<^verbatim>\<open>session.get\<close> call.
\<close>

record world =
  files :: fs
  log :: "(log_level \<times> string) list"
  spawned :: "string list list"
  requests :: "(string \<times> params) list"

text \<open>What \<^verbatim>\<open>subprocess.run\<close> gives back: a completed process (return code, standard
  output, standard error) or an exception (\<^verbatim>\<open>TimeoutExpired\<close>, a missing program, ...).\<close>

datatype proc_result = Completed int string string | ProcRaised exn

text \<open>What \<^verbatim>\<open>session.get\<close> gives back: a response (status code and body) or an exception
  of \<^verbatim>\<open>requests\<close> (time-out, connection error).\<close>

datatype http_result = Response int string | RequestFailed exn

record config =
  ena_base_url :: string
  ena_ftp_base :: string
  ena_timeout :: int
  ena_max_retries :: int
  ncbi_base_url :: string
  ncbi_timeout :: int
  fastq_dir :: string
  metadata_dir :: string
  validate_downloads :: bool
  max_concurrent_downloads :: int
  min_read_length :: int

text \<open>
  The collaborators. The HTTP server and the transports may answer differently on every
  call, so they see the history; a digest tool only reads the file it is given (its
  content, or \<open>None\<close> for a missing file). A transport returns the disk as it leaves it. \<open>glob_error\<close> is the exception \<^verbatim>\<open>Path.glob\<close> raises
  for a pattern it refuses (it depends on the pattern alone), \<open>fnmatch\<close> its matching of a
  file name against a pattern. \<open>completion_order\<close> is the order in which the futures
  of the thread pool complete.
\<close>

record env =
  http_get :: "(string \<times> params) list \<Rightarrow> string \<Rightarrow> params \<Rightarrow> int \<Rightarrow> http_result"
  fromstring :: "string \<Rightarrow> exn + xml"
  run_transport :: "string list list \<Rightarrow> fs \<Rightarrow> string list \<Rightarrow> int \<Rightarrow> proc_result \<times> fs"
  run_digest :: "string list \<Rightarrow> string option \<Rightarrow> proc_result"
  fnmatch :: "string \<Rightarrow> string \<Rightarrow> bool"
  glob_error :: "string \<Rightarrow> exn option"
  completion_order :: "string option list \<Rightarrow> string option list"
  strftime :: string
  dump_ena_metadata :: "string \<Rightarrow> sample list \<Rightarrow> string \<Rightarrow> string"
  dump_ena_summary :: "ena_summary \<Rightarrow> string"
  dump_ncbi_metadata :: "string \<Rightarrow> ncbi_run list \<Rightarrow> string \<Rightarrow> string"
  dump_ncbi_summary :: "ncbi_summary \<Rightarrow> string"

definition log_info :: "string \<Rightarrow> world \<Rightarrow> world" where
  "log_info m w = w\<lparr>log := log w @ [(INFO, m)]\<rparr>"

definition log_warning :: "string \<Rightarrow> world \<Rightarrow> world" where
  "log_warning m w = w\<lparr>log := log w @ [(WARNING, m)]\<rparr>"

definition log_error :: "string \<Rightarrow> world \<Rightarrow> world" where
  "log_error m w = w\<lparr>log := log w @ [(ERROR, m)]\<rparr>"

text \<open>\<^verbatim>\<open>Path.exists\<close>, \<^verbatim>\<open>Path.stat().st_size\<close>, \<^verbatim>\<open>Path.unlink(missing_ok=True)\<close>
  and \<^verbatim>\<open>open(path, 'w')\<close> followed by a write.\<close>

definition path_exists :: "fs \<Rightarrow> string \<Rightarrow> bool" where
  "path_exists f p = (map_of f p \<noteq> None)"

definition st_size :: "fs \<Rightarrow> string \<Rightarrow> nat" where
  "st_size f p = (case map_of f p of None \<Rightarrow> 0 | Some c \<Rightarrow> length c)"

definition unlink :: "string \<Rightarrow> world \<Rightarrow> world" where
  "unlink p w = w\<lparr>files := filter (\<lambda>kv. fst kv \<noteq> p) (files w)\<rparr>"

definition write_file :: "string \<Rightarrow> string \<Rightarrow> world \<Rightarrow> world" where
  "write_file p c w = w\<lparr>files := AList.update p c (files w)\<rparr>"

text \<open>\<^verbatim>\<open>Path(d) / name\<close>: an absolute name replaces the directory. (pathlib's
  normalisation of redundant separators is not modelled.)\<close>

definition joinpath :: "string \<Rightarrow> string \<Rightarrow> string" where
  "joinpath d name = (case name of CHR ''/'' # _ \<Rightarrow> name | _ \<Rightarrow> d @ ''/'' @ name)"

section \<open>The ENA downloader: validation and transfer of one file\<close>

text \<open>
  \<^verbatim>\<open>ENACfDNADownloader._validate_file\<close>, the part inside \<^verbatim>\<open>try\<close>: run the digest
  tool and compare the first word of its output with the expected checksum. A tool that
  cannot be started, exits with a non-zero status or prints nothing leaves the file
  accepted, with a warning.
\<close>

definition compare_checksum :: "env \<Rightarrow> string list \<Rightarrow> string \<Rightarrow> string \<Rightarrow> world \<Rightarrow> bool \<times> world" where
  "compare_checksum e cmd expected_checksum file_path w =
     (let w1 = w\<lparr>spawned := spawned w @ [cmd]\<rparr> in
      case run_digest e cmd (map_of (files w) file_path) of
        Completed returncode out err \<Rightarrow>
          if returncode = 0 then
            (case split_first out of
               Some actual_checksum \<Rightarrow> (actual_checksum = expected_checksum, w1)
             | None \<Rightarrow>
                 (True, log_warning (''Error validating checksum for '' @ file_path @ '': ''
                           @ ''list index out of range'') w1))
          else (True, log_warning (''Could not compute checksum for '' @ file_path) w1)
      | ProcRaised x \<Rightarrow>
          (True, log_warning (''Error validating checksum for '' @ file_path @ '': ''
                    @ exn_str x) w1))"

definition validate_file :: "env \<Rightarrow> config \<Rightarrow> string \<Rightarrow> file_info \<Rightarrow> world \<Rightarrow> bool \<times> world" where
  "validate_file e cfg file_path info w =
     (if \<not> validate_downloads cfg then (True, w)
      else if \<not> path_exists (files w) file_path then (False, w)
      else if st_size (files w) file_path = 0 then (False, w)
      else if truthy (checksum info) \<and> truthy (checksum_method info) then
        (let method = lower (fmt (checksum_method info));
             expected_checksum = fmt (checksum info)
         in if method = ''md5'' then
              compare_checksum e [''md5sum'', file_path] expected_checksum file_path w
            else if method = ''sha256'' then
              compare_checksum e [''sha256sum'', file_path] expected_checksum file_path w
            else (True, log_warning (''Unknown checksum method: '' @ method) w))
      else (True, w))"

text \<open>
  \<^verbatim>\<open>ENACfDNADownloader.download_fastq_file\<close>. Slicing a missing run accession and
  joining a missing file name raise \<^verbatim>\<open>TypeError\<close> before the \<^verbatim>\<open>try\<close>, so the
  exception leaves the function (\<open>Inl\<close>).
\<close>

definition wget_cmd :: "config \<Rightarrow> string \<Rightarrow> string \<Rightarrow> string list" where
  "wget_cmd cfg local_path ftp_url =
     [''wget'', ''--continue'', ''--timeout'', str_int (ena_timeout cfg),
      ''--tries'', str_int (ena_max_retries cfg), ''--output-document'', local_path, ftp_url]"

text \<open>The FTP locator of a file: the first six characters of the run accession, the
  run accession and the file name under the configured root.\<close>

definition ena_ftp_url :: "config \<Rightarrow> string \<Rightarrow> string \<Rightarrow> string" where
  "ena_ftp_url cfg acc name = ena_ftp_base cfg @ ''/'' @ take 6 acc @ ''/'' @ acc @ ''/'' @ name"

text \<open>The second half of \<^verbatim>\<open>download_fastq_file\<close>: the \<^verbatim>\<open>wget\<close> call in its \<^verbatim>\<open>try\<close>
  block, the validation of what it wrote, and the three \<^verbatim>\<open>except\<close> and \<^verbatim>\<open>else\<close> exits.\<close>

definition fetch_file ::
    "env \<Rightarrow> config \<Rightarrow> string \<Rightarrow> string \<Rightarrow> string \<Rightarrow> file_info \<Rightarrow> world \<Rightarrow> bool \<times> world" where
  "fetch_file e cfg name local_path ftp_url info w1 =
     (let w2 = log_info (''Downloading: '' @ name) w1;
          cmd = wget_cmd cfg local_path ftp_url;
          (result, disk) = run_transport e (spawned w2) (files w2) cmd (ena_timeout cfg);
          w3 = w2\<lparr>spawned := spawned w2 @ [cmd], files := disk\<rparr>
      in case result of
           Completed returncode out err \<Rightarrow>
             if returncode = 0 then
               (let (ok, w4) = validate_file e cfg local_path info w3
                in if ok then (True, log_info (''Successfully downloaded: '' @ name) w4)
                   else (False, unlink local_path
                                  (log_error (''File validation failed: '' @ name) w4)))
             else (False, log_error (''Download failed for '' @ name @ '': '' @ err) w3)
         | ProcRaised x \<Rightarrow>
             if exn_cls x = TimeoutExpired then
               (False, unlink local_path (log_error (''Download timeout for '' @ name) w3))
             else
               (False, unlink local_path
                         (log_error (''Error downloading '' @ name @ '': '' @ exn_str x) w3)))"

definition download_fastq_file ::
    "env \<Rightarrow> config \<Rightarrow> string option \<Rightarrow> string option \<Rightarrow> file_info \<Rightarrow> world \<Rightarrow> exn + (bool \<times> world)" where
  "download_fastq_file e cfg run_acc fname info w =
     (case run_acc of
        None \<Rightarrow> Inl (Raised TypeError (quoted ''NoneType'' @ '' object is not subscriptable''))
      | Some acc \<Rightarrow>
     (case fname of
        None \<Rightarrow> Inl (Raised TypeError (''unsupported operand type(s) for /: '' @ quoted ''PosixPath''
                       @ '' and '' @ quoted ''NoneType''))
      | Some name \<Rightarrow>
     (let ftp_url = ena_ftp_url cfg acc name;
          local_path = joinpath (fastq_dir cfg) name;
          (valid, w1) = (if path_exists (files w) local_path
                         then validate_file e cfg local_path info w else (False, w))
      in if valid then Inr (True, log_info (''File already exists and is valid: '' @ name) w1)
         else Inr (fetch_file e cfg name local_path ftp_url info w1))))"

section \<open>Remote calls\<close>

text \<open>
  \<^verbatim>\<open>response.raise_for_status()\<close> raises \<^verbatim>\<open>HTTPError\<close> for the status codes 400 to 599
  (the reason phrase and the URL of the message are left out).
\<close>

definition raise_for_status :: "int \<Rightarrow> exn option" where
  "raise_for_status status =
     (if 400 \<le> status \<and> status < 500 then Some (Raised HTTPError (str_int status @ '' Client Error''))
      else if 500 \<le> status \<and> status < 600 then Some (Raised HTTPError (str_int status @ '' Server Error''))
      else None)"

text \<open>
  The three statements every query function starts its \<^verbatim>\<open>try\<close> block with:
  \<^verbatim>\<open>session.get\<close>, \<^verbatim>\<open>raise_for_status\<close>, \<^verbatim>\<open>ET.fromstring\<close>.
\<close>

definition fetch_xml :: "env \<Rightarrow> string \<Rightarrow> params \<Rightarrow> int \<Rightarrow> world \<Rightarrow> (exn + xml) \<times> world" where
  "fetch_xml e url ps timeout w =
     (let w1 = w\<lparr>requests := requests w @ [(url, ps)]\<rparr> in
      case http_get e (requests w) url ps timeout of
        RequestFailed x \<Rightarrow> (Inl x, w1)
      | Response status body \<Rightarrow>
          (case raise_for_status status of
             Some x \<Rightarrow> (Inl x, w1)
           | None \<Rightarrow> (fromstring e body, w1)))"

section \<open>The ENA backend\<close>

definition add_attribute ::
    "xml \<Rightarrow> (string option \<times> string option) list \<Rightarrow> (string option \<times> string option) list" where
  "add_attribute a d =
     (case find_child ''TAG'' a of
        None \<Rightarrow> d
      | Some t \<Rightarrow>
          (case find_child ''VALUE'' a of
             None \<Rightarrow> d
           | Some v \<Rightarrow> AList.update (elem_text t) (elem_text v) d))"

definition sample_of_xml :: "xml \<Rightarrow> sample" where
  "sample_of_xml s =
     \<lparr>smp_accession = get_attr s ''accession'',
      smp_title = child_text ''TITLE'' s,
      smp_description = child_text ''DESCRIPTION'' s,
      smp_taxon_id = get_attr s ''taxon_id'',
      smp_submission_date = get_attr s ''submission_date'',
      smp_attributes = fold add_attribute (findall_desc ''SAMPLE_ATTRIBUTE'' s) []\<rparr>"

text \<open>\<^verbatim>\<open>ENACfDNADownloader.get_project_samples\<close>.\<close>

definition get_project_samples :: "env \<Rightarrow> config \<Rightarrow> string \<Rightarrow> world \<Rightarrow> sample list \<times> world" where
  "get_project_samples e cfg acc w =
     (let w0 = log_info (''Getting samples for project: '' @ acc) w;
          url = ena_base_url cfg @ ''/'' @ acc;
          (r, w1) = fetch_xml e url [] (ena_timeout cfg) w0
      in case r of
           Inl x \<Rightarrow>
             ([], log_error (''Error getting samples for project '' @ acc @ '': '' @ exn_str x) w1)
         | Inr root \<Rightarrow>
             (let samples = map sample_of_xml (findall_desc ''SAMPLE'' root)
              in (samples, log_info (''Found '' @ str_nat (length samples)
                                      @ '' samples in project '' @ acc) w1)))"

definition file_of_xml :: "xml \<Rightarrow> file_info" where
  "file_of_xml f =
     \<lparr>filename = get_attr f ''filename'',
      filetype = get_attr f ''filetype'',
      checksum = get_attr f ''checksum'',
      checksum_method = get_attr f ''checksum_method'',
      unencrypted_checksum = get_attr f ''unencrypted_checksum'',
      unencrypted_checksum_method = get_attr f ''unencrypted_checksum_method''\<rparr>"

definition run_of_xml :: "xml \<Rightarrow> ena_run" where
  "run_of_xml r =
     \<lparr>run_accession = get_attr r ''accession'',
      run_alias = get_attr r ''alias'',
      run_title = child_text ''TITLE'' r,
      run_instrument_platform = get_attr r ''instrument_platform'',
      run_instrument_model = get_attr r ''instrument_model'',
      run_base_count = get_attr r ''base_count'',
      run_read_count = get_attr r ''read_count'',
      run_date = get_attr r ''run_date'',
      run_files = map file_of_xml (findall_desc ''FILE'' r)\<rparr>"

text \<open>\<^verbatim>\<open>ENACfDNADownloader.get_sample_runs\<close>. The accession comes from a sample dictionary and
  may be \<^verbatim>\<open>None\<close>, which the f-strings print.\<close>

definition get_sample_runs :: "env \<Rightarrow> config \<Rightarrow> string option \<Rightarrow> world \<Rightarrow> ena_run list \<times> world" where
  "get_sample_runs e cfg acc w =
     (let w0 = log_info (''Getting runs for sample: '' @ fmt acc) w;
          url = ena_base_url cfg @ ''/'' @ fmt acc;
          (r, w1) = fetch_xml e url [] (ena_timeout cfg) w0
      in case r of
           Inl x \<Rightarrow>
             ([], log_error (''Error getting runs for sample '' @ fmt acc @ '': '' @ exn_str x) w1)
         | Inr root \<Rightarrow>
             (let runs = map run_of_xml (findall_desc ''RUN'' root)
              in (runs, log_info (''Found '' @ str_nat (length runs)
                                   @ '' runs for sample '' @ fmt acc) w1)))"

section \<open>The ENA acquisition\<close>

text \<open>
  The two inner loops of \<^verbatim>\<open>ENACfDNADownloader.download_project_data\<close>, over the files of a
  run and over the runs of a sample. The state is \<^verbatim>\<open>sample_success\<close>, the summary and the
  world. An exception of \<^verbatim>\<open>download_fastq_file\<close> ends both loops; the summary keeps the
  counts reached so far, since the dictionary is updated in place.
\<close>

definition eligible :: "file_info \<Rightarrow> bool" where
  "eligible f = (filetype f = Some ''fastq'' \<or> filetype f = Some ''fastq.gz'')"

fun download_files ::
    "env \<Rightarrow> config \<Rightarrow> string option \<Rightarrow> file_info list \<Rightarrow> bool \<times> ena_summary \<times> world
       \<Rightarrow> exn option \<times> bool \<times> ena_summary \<times> world" where
  "download_files e cfg acc [] st = (None, st)"
| "download_files e cfg acc (f # fs) (ok, s, w) =
     (if eligible f then
        (case download_fastq_file e cfg acc (filename f) f w of
           Inl x \<Rightarrow> (Some x, ok, s, w)
         | Inr (success, w') \<Rightarrow>
             if success
             then download_files e cfg acc fs (ok, s\<lparr>downloaded_files := downloaded_files s + 1\<rparr>, w')
             else download_files e cfg acc fs (False, s\<lparr>failed_files := failed_files s + 1\<rparr>, w'))
      else download_files e cfg acc fs (ok, s, w))"

fun download_runs ::
    "env \<Rightarrow> config \<Rightarrow> ena_run list \<Rightarrow> bool \<times> ena_summary \<times> world
       \<Rightarrow> exn option \<times> bool \<times> ena_summary \<times> world" where
  "download_runs e cfg [] st = (None, st)"
| "download_runs e cfg (r # rs) st =
     (case download_files e cfg (run_accession r) (run_files r) st of
        (Some x, st') \<Rightarrow> (Some x, st')
      | (None, st') \<Rightarrow> download_runs e cfg rs st')"

text \<open>The body of the loop over the samples, with its \<^verbatim>\<open>try\<close> and \<^verbatim>\<open>except\<close>.\<close>

definition process_sample :: "env \<Rightarrow> config \<Rightarrow> sample \<Rightarrow> ena_summary \<times> world \<Rightarrow> ena_summary \<times> world" where
  "process_sample e cfg smp st =
     (let (s, w) = st;
          (runs, w1) = get_sample_runs e cfg (smp_accession smp) w
      in if runs = [] then
           (s\<lparr>failed_samples := failed_samples s + 1,
              errors := errors s @ [''No runs found for sample '' @ fmt (smp_accession smp)]\<rparr>, w1)
         else
           (case download_runs e cfg runs (True, s, w1) of
              (None, sample_success, s', w') \<Rightarrow>
                if sample_success
                then (s'\<lparr>downloaded_samples := downloaded_samples s' + 1\<rparr>, w')
                else (s'\<lparr>failed_samples := failed_samples s' + 1\<rparr>, w')
            | (Some x, sample_success, s', w') \<Rightarrow>
                (s'\<lparr>failed_samples := failed_samples s' + 1,
                    errors := errors s' @ [''Error processing sample '' @ fmt (smp_accession smp)
                                            @ '': '' @ exn_str x]\<rparr>,
                 log_error (''Error processing sample '' @ fmt (smp_accession smp)
                             @ '': '' @ exn_str x) w')))"

text \<open>\<^verbatim>\<open>if max_samples: samples = samples[:max_samples]\<close>: \<^verbatim>\<open>None\<close> and \<open>0\<close> are falsy.\<close>

definition limit_units :: "int option \<Rightarrow> 'a list \<Rightarrow> 'a list" where
  "limit_units max_units xs =
     (case max_units of
        None \<Rightarrow> xs
      | Some n \<Rightarrow> if n \<noteq> 0 then slice_to xs n else xs)"

text \<open>\<^verbatim>\<open>ENACfDNADownloader.download_project_data\<close>.\<close>

definition ena_download_project_data ::
    "env \<Rightarrow> config \<Rightarrow> string \<Rightarrow> int option \<Rightarrow> world \<Rightarrow> ena_summary \<times> world" where
  "ena_download_project_data e cfg acc max_samples w =
     (let w0 = log_info (''Starting download for project: '' @ acc) w;
          (all_samples, w1) = get_project_samples e cfg acc w0;
          samples = limit_units max_samples all_samples;
          download_summary =
            \<lparr>project_accession = acc, total_samples = length samples, downloaded_samples = 0,
             failed_samples = 0, downloaded_files = 0, failed_files = 0, errors = []\<rparr>;
          w2 = write_file (joinpath (metadata_dir cfg) (acc @ ''_metadata.json''))
                 (dump_ena_metadata e acc samples (strftime e)) w1;
          (s, w3) = fold (process_sample e cfg) samples (download_summary, w2);
          w4 = write_file (joinpath (metadata_dir cfg) (acc @ ''_download_summary.json''))
                 (dump_ena_summary e s) w3;
          w5 = log_info (''Download completed for project '' @ acc) w4;
          w6 = log_info (''Summary: '' @ str_nat (downloaded_samples s) @ ''/''
                          @ str_nat (total_samples s) @ '' samples downloaded'') w5
      in (s, w6))"

section \<open>The NCBI backend\<close>

text \<open>\<^verbatim>\<open>int(value) if value else 0\<close>; the \<^verbatim>\<open>ValueError\<close> of \<^verbatim>\<open>int\<close> is \<open>Inl\<close>.\<close>

definition int_or_zero :: "string option \<Rightarrow> exn + int" where
  "int_or_zero v =
     (if truthy v then
        (case py_int (fmt v) of
           None \<Rightarrow> Inl (Raised ValueError (''invalid literal for int() with base 10: '' @ quoted (fmt v)))
         | Some i \<Rightarrow> Inr i)
      else Inr 0)"

text \<open>A \<^verbatim>\<open>for\<close> loop whose body may raise: the first exception ends it.\<close>

fun fold_items :: "('a \<Rightarrow> 'b \<Rightarrow> exn + 'b) \<Rightarrow> 'a list \<Rightarrow> 'b \<Rightarrow> exn + 'b" where
  "fold_items f [] p = Inr p"
| "fold_items f (x # xs) p = (case f x p of Inl err \<Rightarrow> Inl err | Inr p' \<Rightarrow> fold_items f xs p')"

definition set_project_item :: "xml \<Rightarrow> ncbi_project \<Rightarrow> exn + ncbi_project" where
  "set_project_item item p =
     (let name = get_attr item ''Name''; v = elem_text item in
      if name = Some ''Accession'' then Inr (p\<lparr>prj_accession := v\<rparr>)
      else if name = Some ''Title'' then Inr (p\<lparr>prj_title := v\<rparr>)
      else if name = Some ''Summary'' then Inr (p\<lparr>prj_description := v\<rparr>)
      else if name = Some ''SubmissionDate'' then Inr (p\<lparr>prj_submission_date := v\<rparr>)
      else if name = Some ''CenterName'' then Inr (p\<lparr>prj_center_name := v\<rparr>)
      else if name = Some ''SampleCount'' then
        (case int_or_zero v of Inl err \<Rightarrow> Inl err | Inr i \<Rightarrow> Inr (p\<lparr>prj_sample_count := i\<rparr>))
      else Inr p)"

definition summary_params :: "string option \<Rightarrow> params" where
  "summary_params ident = [(''db'', Some ''sra''), (''id'', ident), (''retmode'', Some ''xml'')]"

text \<open>\<^verbatim>\<open>NCBICfDNADownloader._get_project_details\<close>. Without a \<^verbatim>\<open>DocSum\<close> element the
  function falls off its end and returns \<^verbatim>\<open>None\<close>.\<close>

definition get_project_details ::
    "env \<Rightarrow> config \<Rightarrow> string option \<Rightarrow> world \<Rightarrow> ncbi_project option \<times> world" where
  "get_project_details e cfg project_id w =
     (let (r, w1) = fetch_xml e (ncbi_base_url cfg @ ''/esummary.fcgi'')
                      (summary_params project_id) (ncbi_timeout cfg) w;
          failed = (\<lambda>x. (None, log_error (''Error getting project details for '' @ fmt project_id
                                            @ '': '' @ exn_str x) w1))
      in case r of
           Inl x \<Rightarrow> failed x
         | Inr root \<Rightarrow>
             (case find_desc ''DocSum'' root of
                None \<Rightarrow> (None, w1)
              | Some doc_sum \<Rightarrow>
                  (case fold_items set_project_item (findall_desc ''Item'' doc_sum)
                          \<lparr>prj_id = project_id, prj_accession = Some [], prj_title = Some [],
                           prj_description = Some [], prj_submission_date = Some [],
                           prj_center_name = Some [], prj_sample_count = 0\<rparr> of
                     Inl x \<Rightarrow> failed x
                   | Inr project \<Rightarrow> (Some project, w1))))"

definition set_run_item :: "xml \<Rightarrow> ncbi_run \<Rightarrow> exn + ncbi_run" where
  "set_run_item item r =
     (let name = get_attr item ''Name''; v = elem_text item in
      if name = Some ''Accession'' then Inr (r\<lparr>sra_accession := v\<rparr>)
      else if name = Some ''Title'' then Inr (r\<lparr>sra_title := v\<rparr>)
      else if name = Some ''Platform'' then Inr (r\<lparr>sra_instrument_platform := v\<rparr>)
      else if name = Some ''Model'' then Inr (r\<lparr>sra_instrument_model := v\<rparr>)
      else if name = Some ''Bases'' then
        (case int_or_zero v of Inl err \<Rightarrow> Inl err | Inr i \<Rightarrow> Inr (r\<lparr>sra_base_count := i\<rparr>))
      else if name = Some ''Spots'' then
        (case int_or_zero v of Inl err \<Rightarrow> Inl err | Inr i \<Rightarrow> Inr (r\<lparr>sra_read_count := i\<rparr>))
      else if name = Some ''RunDate'' then Inr (r\<lparr>sra_run_date := v\<rparr>)
      else if name = Some ''SampleAcc'' then Inr (r\<lparr>sra_sample_accession := v\<rparr>)
      else if name = Some ''ExperimentAcc'' then Inr (r\<lparr>sra_experiment_accession := v\<rparr>)
      else if name = Some ''StudyAcc'' then Inr (r\<lparr>sra_study_accession := v\<rparr>)
      else Inr r)"

text \<open>\<^verbatim>\<open>NCBICfDNADownloader._get_run_details\<close>.\<close>

definition get_run_details ::
    "env \<Rightarrow> config \<Rightarrow> string option \<Rightarrow> world \<Rightarrow> ncbi_run option \<times> world" where
  "get_run_details e cfg run_id w =
     (let (r, w1) = fetch_xml e (ncbi_base_url cfg @ ''/esummary.fcgi'')
                      (summary_params run_id) (ncbi_timeout cfg) w;
          failed = (\<lambda>x. (None, log_error (''Error getting run details for '' @ fmt run_id
                                            @ '': '' @ exn_str x) w1))
      in case r of
           Inl x \<Rightarrow> failed x
         | Inr root \<Rightarrow>
             (case find_desc ''DocSum'' root of
                None \<Rightarrow> (None, w1)
              | Some doc_sum \<Rightarrow>
                  (case fold_items set_run_item (findall_desc ''Item'' doc_sum)
                          \<lparr>sra_id = run_id, sra_accession = Some [], sra_title = Some [],
                           sra_instrument_platform = Some [], sra_instrument_model = Some [],
                           sra_base_count = 0, sra_read_count = 0, sra_run_date = Some [],
                           sra_sample_accession = Some [], sra_experiment_accession = Some [],
                           sra_study_accession = Some []\<rparr> of
                     Inl x \<Rightarrow> failed x
                   | Inr run \<Rightarrow> (Some run, w1))))"

text \<open>The loop of \<^verbatim>\<open>get_project_runs\<close> over the run ids: a run without details is skipped.\<close>

fun collect_runs :: "env \<Rightarrow> config \<Rightarrow> string option list \<Rightarrow> world \<Rightarrow> ncbi_run list \<times> world" where
  "collect_runs e cfg [] w = ([], w)"
| "collect_runs e cfg (i # ids) w =
     (let (d, w1) = get_run_details e cfg i w;
          (rs, w2) = collect_runs e cfg ids w1
      in (case d of None \<Rightarrow> rs | Some r \<Rightarrow> r # rs, w2))"

text \<open>The parameters of the id search for the runs of a project.\<close>

definition search_params :: "string \<Rightarrow> params" where
  "search_params acc =
     [(''db'', Some ''sra''), (''term'', Some (acc @ ''[Project]'')),
      (''retmode'', Some ''xml''), (''retmax'', Some ''10000'')]"

text \<open>\<^verbatim>\<open>NCBICfDNADownloader.get_project_runs\<close>.\<close>

definition get_project_runs :: "env \<Rightarrow> config \<Rightarrow> string \<Rightarrow> world \<Rightarrow> ncbi_run list \<times> world" where
  "get_project_runs e cfg acc w =
     (let w0 = log_info (''Getting runs for project: '' @ acc) w;
          (r, w1) = fetch_xml e (ncbi_base_url cfg @ ''/esearch.fcgi'')
                      (search_params acc)
                      (ncbi_timeout cfg) w0
      in case r of
           Inl x \<Rightarrow>
             ([], log_error (''Error getting runs for project '' @ acc @ '': '' @ exn_str x) w1)
         | Inr root \<Rightarrow>
             (case find_desc ''IdList'' root of
                None \<Rightarrow> ([], w1)
              | Some id_list \<Rightarrow>
                  (let run_ids = map elem_text (findall_child ''Id'' id_list);
                       (runs, w2) = collect_runs e cfg run_ids w1
                   in (runs, log_info (''Found '' @ str_nat (length runs)
                                        @ '' runs in project '' @ acc) w2))))"

section \<open>The NCBI transfer and acquisition\<close>

text \<open>The name of a path that lies directly in a directory.\<close>

definition dir_entry :: "string \<Rightarrow> string \<Rightarrow> string option" where
  "dir_entry d p =
     (let n = drop (length d + 1) p in
      if take (length d + 1) p = d @ ''/'' \<and> n \<noteq> [] \<and> CHR ''/'' \<notin> set n then Some n else None)"

text \<open>\<^verbatim>\<open>list(Path(d).glob(pattern))\<close>: the exception of a refused pattern, or the paths of the
  directory whose names match. (Only the direct entries of the directory are matched: a
  pattern that reaches into subdirectories is not modelled.)\<close>

definition glob :: "env \<Rightarrow> fs \<Rightarrow> string \<Rightarrow> string \<Rightarrow> exn + string list" where
  "glob e disk d pattern =
     (case glob_error e pattern of
        Some x \<Rightarrow> Inl x
      | None \<Rightarrow>
          Inr (filter (\<lambda>p. case dir_entry d p of None \<Rightarrow> False | Some n \<Rightarrow> fnmatch e n pattern)
                 (remdups (map fst disk))))"

definition fasterq_cmd :: "config \<Rightarrow> string \<Rightarrow> string list" where
  "fasterq_cmd cfg acc =
     [''fasterq-dump'', ''--outdir'', fastq_dir cfg,
      ''--threads'', str_int (max_concurrent_downloads cfg),
      ''--split-files'', ''--skip-technical'',
      ''--min-read-len'', str_int (min_read_length cfg), acc]"

text \<open>
  \<^verbatim>\<open>NCBICfDNADownloader.download_sra_run\<close>. The first glob stands before the \<^verbatim>\<open>try\<close>, so
  its exception leaves the function; everything later is caught and gives \<^verbatim>\<open>False\<close>.
  A run accession \<^verbatim>\<open>None\<close> makes \<^verbatim>\<open>subprocess.run\<close> raise \<^verbatim>\<open>TypeError\<close> before any
  process starts.
\<close>

definition download_sra_run :: "env \<Rightarrow> config \<Rightarrow> string option \<Rightarrow> world \<Rightarrow> (exn + bool) \<times> world" where
  "download_sra_run e cfg run_acc w =
     (let w0 = log_info (''Downloading SRA run: '' @ fmt run_acc) w;
          pattern = fmt run_acc @ ''*.fastq*'';
          caught = (\<lambda>x v. (Inr False, log_error (''Error downloading run '' @ fmt run_acc
                                                   @ '': '' @ exn_str x) v))
      in case glob e (files w0) (fastq_dir cfg) pattern of
           Inl x \<Rightarrow> (Inl x, w0)
         | Inr fastq_files \<Rightarrow>
             if fastq_files \<noteq> [] then
               (Inr True, log_info (''Run '' @ fmt run_acc @ '' already downloaded'') w0)
             else
               (case run_acc of
                  None \<Rightarrow>
                    caught (Raised TypeError
                      ''expected str, bytes or os.PathLike object, not NoneType'') w0
                | Some acc \<Rightarrow>
                    (let cmd = fasterq_cmd cfg acc;
                         (result, disk) = run_transport e (spawned w0) (files w0) cmd (ncbi_timeout cfg);
                         w1 = w0\<lparr>spawned := spawned w0 @ [cmd], files := disk\<rparr>
                     in case result of
                          Completed returncode out err \<Rightarrow>
                            if returncode = 0 then
                              (case glob e (files w1) (fastq_dir cfg) pattern of
                                 Inl x \<Rightarrow> caught x w1
                               | Inr created \<Rightarrow>
                                   if created \<noteq> [] then
                                     (Inr True, log_info (''Successfully downloaded run '' @ acc @ '': ''
                                        @ str_nat (length created) @ '' files'') w1)
                                   else
                                     (Inr False, log_error (''No FASTQ files created for run '' @ acc) w1))
                            else
                              (Inr False, log_error (''Download failed for run '' @ acc @ '': '' @ err) w1)
                        | ProcRaised x \<Rightarrow>
                            if exn_cls x = TimeoutExpired then
                              (Inr False, log_error (''Download timeout for run '' @ acc) w1)
                            else caught x w1)))"

text \<open>
  One turn of the loop over \<^verbatim>\<open>as_completed\<close>, together with the task whose future it
  handles: the task runs, then the loop body reads its result and updates the summary.
\<close>

definition collect_result ::
    "env \<Rightarrow> config \<Rightarrow> string option \<Rightarrow> ncbi_summary \<times> world \<Rightarrow> ncbi_summary \<times> world" where
  "collect_result e cfg run_acc st =
     (let (s, w) = st;
          (r, w1) = download_sra_run e cfg run_acc w;
          caught = (\<lambda>x t. (t\<lparr>failed_runs := failed_runs t + 1,
                              ncbi_errors := ncbi_errors t @ [''Error processing run '' @ fmt run_acc
                                                               @ '': '' @ exn_str x]\<rparr>,
                            log_error (''Error processing run '' @ fmt run_acc @ '': '' @ exn_str x) w1))
      in case r of
           Inl x \<Rightarrow> caught x s
         | Inr success \<Rightarrow>
             if success then
               (let s1 = s\<lparr>downloaded_runs := downloaded_runs s + 1\<rparr> in
                case glob e (files w1) (fastq_dir cfg) (fmt run_acc @ ''*.fastq*'') of
                  Inl x \<Rightarrow> caught x s1
                | Inr fastq_files \<Rightarrow>
                    (s1\<lparr>ncbi_downloaded_files := ncbi_downloaded_files s1 + length fastq_files\<rparr>, w1))
             else
               (s\<lparr>failed_runs := failed_runs s + 1,
                  ncbi_errors := ncbi_errors s @ [''Failed to download run '' @ fmt run_acc]\<rparr>, w1))"

text \<open>
  \<^verbatim>\<open>NCBICfDNADownloader.download_project_data\<close>. The thread pool is modelled by the order
  in which its futures complete: the tasks run one after another in that order, each
  followed by its turn of the collecting loop. \<^verbatim>\<open>ThreadPoolExecutor\<close> raises
  \<^verbatim>\<open>ValueError\<close> for a pool size below one, and nothing catches it.
\<close>

definition ncbi_download_project_data ::
    "env \<Rightarrow> config \<Rightarrow> string \<Rightarrow> int option \<Rightarrow> world \<Rightarrow> exn + (ncbi_summary \<times> world)" where
  "ncbi_download_project_data e cfg acc max_runs w =
     (let w0 = log_info (''Starting download for project: '' @ acc) w;
          (all_runs, w1) = get_project_runs e cfg acc w0;
          runs = limit_units max_runs all_runs;
          download_summary =
            \<lparr>ncbi_project_accession = acc, total_runs = length runs, downloaded_runs = 0,
             failed_runs = 0, ncbi_downloaded_files = 0, ncbi_failed_files = 0, ncbi_errors = []\<rparr>;
          w2 = write_file (joinpath (metadata_dir cfg) (acc @ ''_metadata.json''))
                 (dump_ncbi_metadata e acc runs (strftime e)) w1
      in if max_concurrent_downloads cfg \<le> 0 then
           Inl (Raised ValueError ''max_workers must be greater than 0'')
         else
           (let (s, w3) = fold (collect_result e cfg)
                            (completion_order e (map sra_accession runs)) (download_summary, w2);
                w4 = write_file (joinpath (metadata_dir cfg) (acc @ ''_download_summary.json''))
                       (dump_ncbi_summary e s) w3;
                w5 = log_info (''Download completed for project '' @ acc) w4;
                w6 = log_info (''Summary: '' @ str_nat (downloaded_runs s) @ ''/''
                                @ str_nat (total_runs s) @ '' runs downloaded'') w5
            in Inr (s, w6)))"

section \<open>Notions used in the statements\<close>

text \<open>
  The digest a tool computes for a file: the first word printed by a run that exits
  with status 0. A tool that cannot be started, fails or prints nothing computes none.
\<close>

definition computed_digest :: "env \<Rightarrow> string \<Rightarrow> string \<Rightarrow> fs \<Rightarrow> string option" where
  "computed_digest e tool file_path disk =
     (case run_digest e [tool, file_path] (map_of disk file_path) of
        Completed returncode out err \<Rightarrow> if returncode = 0 then split_first out else None
      | ProcRaised x \<Rightarrow> None)"

text \<open>
  The rules of the Checksum Validator as the specification words them, in its order:
  disabled, missing or empty file, nothing to compare with, unknown algorithm, and
  otherwise valid iff the computed digest is the expected checksum.
\<close>

definition validate_as_specified :: "env \<Rightarrow> config \<Rightarrow> string \<Rightarrow> file_info \<Rightarrow> world \<Rightarrow> bool" where
  "validate_as_specified e cfg file_path info w =
     (let method = lower (fmt (checksum_method info)) in
      if \<not> validate_downloads cfg then True
      else if \<not> path_exists (files w) file_path then False
      else if st_size (files w) file_path = 0 then False
      else if \<not> truthy (checksum info) then True
      else if \<not> truthy (checksum_method info) then True
      else if method = ''md5'' then
        computed_digest e ''md5sum'' file_path (files w) = Some (fmt (checksum info))
      else if method = ''sha256'' then
        computed_digest e ''sha256sum'' file_path (files w) = Some (fmt (checksum info))
      else True)"

text \<open>The same rules with the last one as the code has it: a digest that could not be
  computed does not reject the file.\<close>

definition accepts :: "string option \<Rightarrow> string \<Rightarrow> bool" where
  "accepts digest expected = (case digest of None \<Rightarrow> True | Some d \<Rightarrow> d = expected)"

definition validate_rules :: "env \<Rightarrow> config \<Rightarrow> string \<Rightarrow> file_info \<Rightarrow> world \<Rightarrow> bool" where
  "validate_rules e cfg file_path info w =
     (let method = lower (fmt (checksum_method info)) in
      if \<not> validate_downloads cfg then True
      else if \<not> path_exists (files w) file_path then False
      else if st_size (files w) file_path = 0 then False
      else if \<not> truthy (checksum info) then True
      else if \<not> truthy (checksum_method info) then True
      else if method = ''md5'' then
        accepts (computed_digest e ''md5sum'' file_path (files w)) (fmt (checksum info))
      else if method = ''sha256'' then
        accepts (computed_digest e ''sha256sum'' file_path (files w)) (fmt (checksum info))
      else True)"

text \<open>The subprocess calls that are transports, among all the calls made.\<close>

definition is_transport :: "string list \<Rightarrow> bool" where
  "is_transport cmd =
     (take 1 cmd = [''wget''] \<or> take 1 cmd = [''fasterq-dump''] \<or> take 1 cmd = [''prefetch''])"

definition transport_calls :: "world \<Rightarrow> string list list" where
  "transport_calls w = filter is_transport (spawned w)"

text \<open>A run counts as downloaded when the glob for its FASTQ files finds something.\<close>

definition run_present :: "env \<Rightarrow> config \<Rightarrow> string option \<Rightarrow> fs \<Rightarrow> bool" where
  "run_present e cfg acc disk =
     (case glob e disk (fastq_dir cfg) (fmt acc @ ''*.fastq*'') of
        Inl x \<Rightarrow> False
      | Inr found \<Rightarrow> found \<noteq> [])"

text \<open>The number of files of a sample that the ENA acquisition transfers: those of type
  \<open>fastq\<close> or \<open>fastq.gz\<close>, over all its runs.\<close>

definition eligible_count :: "ena_run list \<Rightarrow> nat" where
  "eligible_count runs = length (filter eligible (concat (map run_files runs)))"

text \<open>
  What the file loops do to their state, for \<open>n\<close> eligible files: they make no request and
  touch no sample counter or error entry; the file counters only grow; the success flag
  stays true iff no file failed; and every eligible file is counted once if the loop ran
  to its end, and at least one is not counted if an exception ended it.
\<close>

definition accounted ::
    "nat \<Rightarrow> bool \<times> ena_summary \<times> world \<Rightarrow> exn option \<times> bool \<times> ena_summary \<times> world \<Rightarrow> bool" where
  "accounted n st r =
     (case st of (ok, s, w) \<Rightarrow>
      case r of (x, ok', s', w') \<Rightarrow>
        requests w' = requests w
        \<and> project_accession s' = project_accession s \<and> total_samples s' = total_samples s
        \<and> downloaded_samples s' = downloaded_samples s \<and> failed_samples s' = failed_samples s
        \<and> errors s' = errors s
        \<and> downloaded_files s \<le> downloaded_files s' \<and> failed_files s \<le> failed_files s'
        \<and> ok' = (ok \<and> failed_files s' = failed_files s)
        \<and> (if x = None
            then downloaded_files s' + failed_files s' = downloaded_files s + failed_files s + n
            else downloaded_files s' + failed_files s' < downloaded_files s + failed_files s + n))"

text \<open>The unit lists an acquisition resolves before it applies the limit, and the request
  that asks for the runs of a sample.\<close>

definition resolved_samples :: "env \<Rightarrow> config \<Rightarrow> string \<Rightarrow> world \<Rightarrow> sample list" where
  "resolved_samples e cfg acc w =
     fst (get_project_samples e cfg acc (log_info (''Starting download for project: '' @ acc) w))"

definition sample_request :: "config \<Rightarrow> sample \<Rightarrow> string \<times> params" where
  "sample_request cfg smp = (ena_base_url cfg @ ''/'' @ fmt (smp_accession smp), [])"

definition resolved_runs :: "env \<Rightarrow> config \<Rightarrow> string \<Rightarrow> world \<Rightarrow> ncbi_run list" where
  "resolved_runs e cfg acc w =
     fst (get_project_runs e cfg acc (log_info (''Starting download for project: '' @ acc) w))"

text \<open>A remote call that failed: the request raised (time-out, connection error) or the
  response carries a status that \<^verbatim>\<open>raise_for_status\<close> rejects.\<close>

definition remote_failure :: "http_result \<Rightarrow> bool" where
  "remote_failure r =
     (case r of RequestFailed x \<Rightarrow> True | Response status body \<Rightarrow> 400 \<le> status \<and> status < 600)"

text \<open>
  The digest tool that \<^verbatim>\<open>_validate_file\<close> runs for a (lower-cased) algorithm, and the
  condition under which it gets that far: validation is enabled, the file exists and is
  not empty, a checksum and an algorithm are supplied, and the algorithm is md5 or
  sha256.
\<close>

definition digest_tool :: "string \<Rightarrow> string" where
  "digest_tool method = (if method = ''md5'' then ''md5sum'' else ''sha256sum'')"

definition checksum_applies :: "config \<Rightarrow> string \<Rightarrow> file_info \<Rightarrow> world \<Rightarrow> bool" where
  "checksum_applies cfg file_path info w =
     (validate_downloads cfg \<and> path_exists (files w) file_path
      \<and> st_size (files w) file_path \<noteq> 0
      \<and> truthy (checksum info) \<and> truthy (checksum_method info)
      \<and> (lower (fmt (checksum_method info)) = ''md5''
           \<or> lower (fmt (checksum_method info)) = ''sha256''))"

text \<open>
  What \<^verbatim>\<open>download_fastq_file\<close> returned for the eligible files of a run, in the order of
  the loop, together with the exception that ended the loop (if one did) and the world
  the loop left. A file whose call raised has no entry, and no file after it is tried.
\<close>

fun file_transfers ::
    "env \<Rightarrow> config \<Rightarrow> string option \<Rightarrow> file_info list \<Rightarrow> world \<Rightarrow> bool list \<times> exn option \<times> world" where
  "file_transfers e cfg acc [] w = ([], None, w)"
| "file_transfers e cfg acc (f # fs) w =
     (if eligible f then
        (case download_fastq_file e cfg acc (filename f) f w of
           Inl x \<Rightarrow> ([], Some x, w)
         | Inr (b, w') \<Rightarrow>
             (case file_transfers e cfg acc fs w' of (bs, x, w'') \<Rightarrow> (b # bs, x, w'')))
      else file_transfers e cfg acc fs w)"

text \<open>The same for the runs of a sample, run after run.\<close>

fun run_transfers ::
    "env \<Rightarrow> config \<Rightarrow> ena_run list \<Rightarrow> world \<Rightarrow> bool list \<times> exn option \<times> world" where
  "run_transfers e cfg [] w = ([], None, w)"
| "run_transfers e cfg (r # rs) w =
     (case file_transfers e cfg (run_accession r) (run_files r) w of
        (bs, Some x, w') \<Rightarrow> (bs, Some x, w')
      | (bs, None, w') \<Rightarrow>
          (case run_transfers e cfg rs w' of (cs, x, w'') \<Rightarrow> (bs @ cs, x, w'')))"

text \<open>A summary after a list of transfer results was counted: one downloaded file for
  each \<open>True\<close>, one failed file for each \<open>False\<close>.\<close>

definition tally :: "bool list \<Rightarrow> ena_summary \<Rightarrow> ena_summary" where
  "tally bs s =
     s\<lparr>downloaded_files := downloaded_files s + length (filter (\<lambda>b. b) bs),
       failed_files := failed_files s + length (filter Not bs)\<rparr>"

text \<open>The error entries that processing one sample appends: one for a sample without
  runs, one for an exception raised while its files were processed, none otherwise.\<close>

definition sample_errors :: "sample \<Rightarrow> ena_run list \<Rightarrow> exn option \<Rightarrow> string list" where
  "sample_errors smp runs raised =
     (if runs = [] then [''No runs found for sample '' @ fmt (smp_accession smp)]
      else case raised of
             None \<Rightarrow> []
           | Some x \<Rightarrow> [''Error processing sample '' @ fmt (smp_accession smp) @ '': '' @ exn_str x])"

text \<open>
  What \<^verbatim>\<open>download_fastq_file\<close> returned over a list of samples, each sample processed in
  the state its predecessors left; and what \<^verbatim>\<open>download_sra_run\<close> returned (or raised) for
  a list of run accessions, each run started in the world its predecessors left.
\<close>

fun sample_transfers :: "env \<Rightarrow> config \<Rightarrow> sample list \<Rightarrow> ena_summary \<times> world \<Rightarrow> bool list" where
  "sample_transfers e cfg [] st = []"
| "sample_transfers e cfg (x # xs) st =
     fst (run_transfers e cfg (fst (get_sample_runs e cfg (smp_accession x) (snd st)))
            (snd (get_sample_runs e cfg (smp_accession x) (snd st))))
     @ sample_transfers e cfg xs (process_sample e cfg x st)"

fun run_outcomes ::
    "env \<Rightarrow> config \<Rightarrow> string option list \<Rightarrow> ncbi_summary \<times> world \<Rightarrow> (exn + bool) list" where
  "run_outcomes e cfg [] st = []"
| "run_outcomes e cfg (a # as) st =
     fst (download_sra_run e cfg a (snd st)) # run_outcomes e cfg as (collect_result e cfg a st)"

text \<open>
  The state in which an acquisition enters its loop over the units: the summary with
  its total set and its counters at zero, and the world after the units were resolved
  and the metadata file was written.
\<close>

definition ena_start :: "env \<Rightarrow> config \<Rightarrow> string \<Rightarrow> int option \<Rightarrow> world \<Rightarrow> ena_summary \<times> world" where
  "ena_start e cfg acc max_samples w =
     (let (all_samples, w1) =
            get_project_samples e cfg acc (log_info (''Starting download for project: '' @ acc) w);
          samples = limit_units max_samples all_samples
      in (\<lparr>project_accession = acc, total_samples = length samples, downloaded_samples = 0,
           failed_samples = 0, downloaded_files = 0, failed_files = 0, errors = []\<rparr>,
          write_file (joinpath (metadata_dir cfg) (acc @ ''_metadata.json''))
            (dump_ena_metadata e acc samples (strftime e)) w1))"

definition ncbi_start :: "env \<Rightarrow> config \<Rightarrow> string \<Rightarrow> int option \<Rightarrow> world \<Rightarrow> ncbi_summary \<times> world" where
  "ncbi_start e cfg acc max_runs w =
     (let (all_runs, w1) =
            get_project_runs e cfg acc (log_info (''Starting download for project: '' @ acc) w);
          runs = limit_units max_runs all_runs
      in (\<lparr>ncbi_project_accession = acc, total_runs = length runs, downloaded_runs = 0,
           failed_runs = 0, ncbi_downloaded_files = 0, ncbi_failed_files = 0, ncbi_errors = []\<rparr>,
          write_file (joinpath (metadata_dir cfg) (acc @ ''_metadata.json''))
            (dump_ncbi_metadata e acc runs (strftime e)) w1))"

section \<open>Example inputs\<close>

definition demo_cfg :: config where
  "demo_cfg =
     \<lparr>ena_base_url = ''https://ena/api'', ena_ftp_base = ''ftp://ena/fastq'',
      ena_timeout = 300, ena_max_retries = 3,
      ncbi_base_url = ''https://ncbi/eutils'', ncbi_timeout = 600,
      fastq_dir = ''data/fastq'', metadata_dir = ''data/meta'',
      validate_downloads = True, max_concurrent_downloads = 4, min_read_length = 50\<rparr>"

text \<open>A machine without network and without any of the external tools.\<close>

definition offline :: env where
  "offline =
     \<lparr>http_get = (\<lambda>h u p t. RequestFailed (Raised RequestException ''timed out'')),
      fromstring = (\<lambda>s. Inl (Raised ParseError ''no element found'')),
      run_transport = (\<lambda>h d c t. (ProcRaised (Raised OSError ''No such file or directory''), d)),
      run_digest = (\<lambda>c x. ProcRaised (Raised OSError ''No such file or directory'')),
      fnmatch = (\<lambda>n p. False),
      glob_error = (\<lambda>p. None),
      completion_order = (\<lambda>xs. xs),
      strftime = ''2024-01-01 00:00:00'',
      dump_ena_metadata = (\<lambda>a s t. ''{}''),
      dump_ena_summary = (\<lambda>s. ''{}''),
      dump_ncbi_metadata = (\<lambda>a r t. ''{}''),
      dump_ncbi_summary = (\<lambda>s. ''{}'')\<rparr>"

definition empty_world :: world where
  "empty_world = \<lparr>files = [], log = [], spawned = [], requests = []\<rparr>"

text \<open>A world whose only file is a damaged download of \<^verbatim>\<open>r1.fastq.gz\<close>.\<close>

definition damaged_world :: world where
  "damaged_world = empty_world\<lparr>files := [(''data/fastq/r1.fastq.gz'', ''garbage'')]\<rparr>"

definition md5_info :: file_info where
  "md5_info =
     \<lparr>filename = Some ''r1.fastq.gz'', filetype = Some ''fastq.gz'',
      checksum = Some ''5d41402abc4b2a76b9719d911017c592'', checksum_method = Some ''MD5'',
      unencrypted_checksum = None, unencrypted_checksum_method = None\<rparr>"

definition crc32_info :: file_info where
  "crc32_info = md5_info\<lparr>checksum := Some ''3610a686'', checksum_method := Some ''crc32''\<rparr>"

text \<open>A \<^verbatim>\<open>wget\<close> that writes the bytes received so far to its output document (the
  eighth word of the command) and then gives up with exit status 4.\<close>

definition failing_wget :: env where
  "failing_wget =
     offline\<lparr>run_transport :=
       (\<lambda>h d c t. (Completed 4 [] ''Network failure'', AList.update (c ! 7) ''@SEQ'' d))\<rparr>"

text \<open>Transports that succeed: \<^verbatim>\<open>wget\<close> writes \<open>hello\<close> to its output document,
  \<^verbatim>\<open>fasterq-dump\<close> writes one FASTQ file named after the run. The digest tool prints the
  MD5 digest of \<open>hello\<close> for that content. The glob matcher is a toy one: a name matches
  a pattern when their first nine characters agree.\<close>

definition working :: env where
  "working =
     offline\<lparr>run_transport :=
       (\<lambda>h d c t.
          if take 1 c = [''wget''] then (Completed 0 [] [], AList.update (c ! 7) ''hello'' d)
          else (Completed 0 [] [], AList.update (''data/fastq/'' @ last c @ ''_1.fastq'') ''@r1'' d)),
      run_digest :=
       (\<lambda>c x. case x of
                 None \<Rightarrow> Completed 1 [] ''No such file or directory''
               | Some content \<Rightarrow>
                   if content = ''hello''
                   then Completed 0 (''5d41402abc4b2a76b9719d911017c592  '' @ last c) []
                   else Completed 0 (''d41d8cd98f00b204e9800998ecf8427e  '' @ last c) []),
      fnmatch := (\<lambda>n p. take 9 n = take 9 p)\<rparr>"

definition fetched_world :: world where
  "fetched_world = empty_world\<lparr>files := [(''data/fastq/r1.fastq.gz'', ''hello'')]\<rparr>"

definition dumped_world :: world where
  "dumped_world = empty_world\<lparr>files := [(''data/fastq/SRR000001_1.fastq'', ''@r1'')]\<rparr>"

text \<open>
  An archive for the examples. ENA: project \<open>PRJ10\<close> has the samples \<open>S0\<close> to \<open>S9\<close>,
  \<open>PRJ1\<close> only \<open>S1\<close>, \<open>PRJ0\<close> only \<open>S0\<close>; sample \<open>S1\<close> has one run with one
  FASTQ file, \<open>S0\<close> has an empty run list, every other accession is unknown (404).
  NCBI: every project has the ten runs \<open>SRR000000\<close> to \<open>SRR000009\<close>. The futures
  complete in reverse order of submission.
\<close>

definition sample_elem :: "nat \<Rightarrow> xml" where
  "sample_elem i =
     Element ''SAMPLE'' [(''accession'', ''S'' @ str_nat i)] None
       [Element ''TITLE'' [] (Some ''plasma'') []]"

definition archive_parse :: "string \<Rightarrow> exn + xml" where
  "archive_parse body =
     (if body = ''ten samples'' then
        Inr (Element ''SAMPLE_SET'' [] None (map sample_elem [0..<10]))
      else if body = ''one sample'' then
        Inr (Element ''SAMPLE_SET'' [] None [sample_elem 1])
      else if body = ''empty sample'' then
        Inr (Element ''SAMPLE_SET'' [] None [sample_elem 0])
      else if body = ''one run'' then
        Inr (Element ''RUN_SET'' [] None
          [Element ''RUN'' [(''accession'', ''ERR000001'')] None
             [Element ''FILE''
                [(''filename'', ''r1.fastq.gz''), (''filetype'', ''fastq.gz''),
                 (''checksum'', ''5d41402abc4b2a76b9719d911017c592''),
                 (''checksum_method'', ''MD5'')] None []]])
      else if body = ''no run'' then Inr (Element ''RUN_SET'' [] None [])
      else if body = ''ten ids'' then
        Inr (Element ''eSearchResult'' [] None
          [Element ''IdList'' [] None
             (map (\<lambda>i. Element ''Id'' [] (Some (str_nat i)) []) [0..<10])])
      else if take 4 body = ''run '' then
        Inr (Element ''eSummaryResult'' [] None
          [Element ''DocSum'' [] None
             [Element ''Item'' [(''Name'', ''Accession'')] (Some (''SRR00000'' @ drop 4 body)) [],
              Element ''Item'' [(''Name'', ''Spots'')] (Some ''1000'') []]])
      else Inl (Raised ParseError ''syntax error: line 1, column 0''))"

definition archive_get :: "(string \<times> params) list \<Rightarrow> string \<Rightarrow> params \<Rightarrow> int \<Rightarrow> http_result" where
  "archive_get h url ps t =
     (if url = ''https://ena/api/PRJ10'' then Response 200 ''ten samples''
      else if url = ''https://ena/api/PRJ1'' then Response 200 ''one sample''
      else if url = ''https://ena/api/PRJ0'' then Response 200 ''empty sample''
      else if url = ''https://ena/api/S1'' then Response 200 ''one run''
      else if url = ''https://ena/api/S0'' then Response 200 ''no run''
      else if url = ''https://ncbi/eutils/esearch.fcgi'' then Response 200 ''ten ids''
      else if url = ''https://ncbi/eutils/esummary.fcgi'' then
        Response 200 (''run '' @ fmt (case map_of ps ''id'' of None \<Rightarrow> None | Some v \<Rightarrow> v))
      else Response 404 [])"

definition archive :: env where
  "archive = working\<lparr>http_get := archive_get, fromstring := archive_parse,
                     completion_order := rev\<rparr>"

text \<open>The same archive on a machine whose transports fail with exit status 4.\<close>

definition failing_archive :: env where
  "failing_archive = archive\<lparr>run_transport := run_transport failing_wget\<rparr>"

text \<open>An archive that answers 503 for the project, 404 for the sample and lets every
  other request time out.\<close>

definition broken :: env where
  "broken =
     offline\<lparr>http_get :=
       (\<lambda>h url ps t.
          if url = ''https://ena/api/PRJ10'' then Response 503 []
          else if url = ''https://ena/api/S1'' then Response 404 []
          else RequestFailed (Raised RequestException ''Read timed out''))\<rparr>"

text \<open>
  An archive whose project \<open>PRJ5\<close> has one sample with two runs, and each run has one file
  named \<^verbatim>\<open>reads.fastq.gz\<close>, with different content and different checksums. \<^verbatim>\<open>wget\<close>
  writes the content of the locator it is given to its output document; \<^verbatim>\<open>md5sum\<close> prints
  the digest of what the file holds.
\<close>

definition twin_parse :: "string \<Rightarrow> exn + xml" where
  "twin_parse body =
     (if body = ''twin sample'' then
        Inr (Element ''SAMPLE_SET'' [] None [sample_elem 5])
      else if body = ''twin runs'' then
        Inr (Element ''RUN_SET'' [] None
          [Element ''RUN'' [(''accession'', ''ERR000001'')] None
             [Element ''FILE''
                [(''filename'', ''reads.fastq.gz''), (''filetype'', ''fastq.gz''),
                 (''checksum'', ''5d41402abc4b2a76b9719d911017c592''),
                 (''checksum_method'', ''MD5'')] None []],
           Element ''RUN'' [(''accession'', ''ERR000002'')] None
             [Element ''FILE''
                [(''filename'', ''reads.fastq.gz''), (''filetype'', ''fastq.gz''),
                 (''checksum'', ''7d793037a0760186574b0282f2f435e7''),
                 (''checksum_method'', ''MD5'')] None []]])
      else Inl (Raised ParseError ''syntax error: line 1, column 0''))"

definition twins :: env where
  "twins =
     offline\<lparr>http_get :=
       (\<lambda>h url ps t.
          if url = ''https://ena/api/PRJ5'' then Response 200 ''twin sample''
          else if url = ''https://ena/api/S5'' then Response 200 ''twin runs''
          else Response 404 []),
      fromstring := twin_parse,
      run_transport :=
       (\<lambda>h d c t.
          (Completed 0 [] [],
           AList.update (c ! 7)
             (if last c = ''ftp://ena/fastq/ERR000/ERR000002/reads.fastq.gz''
              then ''world'' else ''hello'') d)),
      run_digest :=
       (\<lambda>c x. case x of
                 None \<Rightarrow> Completed 1 [] ''No such file or directory''
               | Some content \<Rightarrow>
                   if content = ''hello''
                   then Completed 0 (''5d41402abc4b2a76b9719d911017c592  '' @ last c) []
                   else if content = ''world''
                   then Completed 0 (''7d793037a0760186574b0282f2f435e7  '' @ last c) []
                   else Completed 0 (''d41d8cd98f00b204e9800998ecf8427e  '' @ last c) [])\<rparr>"

text \<open>A \<^verbatim>\<open>wget\<close> that exits with status 0 and writes nothing.\<close>

definition silent_wget :: env where
  "silent_wget = offline\<lparr>run_transport := (\<lambda>h d c t. (Completed 0 [] [], d))\<rparr>"

text \<open>The world that the first transfer through that \<^verbatim>\<open>wget\<close> leaves, with validation
  disabled: the transfer is logged as a success and no file was written.\<close>

definition unvalidated_world :: world where
  "unvalidated_world =
     \<lparr>files = [],
      log =
        [(INFO, ''Downloading: r1.fastq.gz''),
         (INFO, ''Successfully downloaded: r1.fastq.gz'')],
      spawned =
        [[''wget'', ''--continue'', ''--timeout'', ''300'', ''--tries'',
          ''3'', ''--output-document'', ''data/fastq/r1.fastq.gz'',
          ''ftp://ena/fastq/ERR000/ERR000001/r1.fastq.gz'']],
      requests = []\<rparr>"

text \<open>The world that the first acquisition of \<open>PRJ5\<close> leaves, started in the empty world:
  the one destination file holds the content of the second run.\<close>

definition twins_world :: world where
  "twins_world =
     \<lparr>files =
        [(''data/meta/PRJ5_metadata.json'', ''{}''),
         (''data/fastq/reads.fastq.gz'', ''world''),
         (''data/meta/PRJ5_download_summary.json'', ''{}'')],
      log =
        [(INFO, ''Starting download for project: PRJ5''),
         (INFO, ''Getting samples for project: PRJ5''),
         (INFO, ''Found 1 samples in project PRJ5''),
         (INFO, ''Getting runs for sample: S5''),
         (INFO, ''Found 2 runs for sample S5''),
         (INFO, ''Downloading: reads.fastq.gz''),
         (INFO, ''Successfully downloaded: reads.fastq.gz''),
         (INFO, ''Downloading: reads.fastq.gz''),
         (INFO, ''Successfully downloaded: reads.fastq.gz''),
         (INFO, ''Download completed for project PRJ5''),
         (INFO, ''Summary: 1/1 samples downloaded'')],
      spawned =
        [[''wget'', ''--continue'', ''--timeout'', ''300'', ''--tries'',
          ''3'', ''--output-document'', ''data/fastq/reads.fastq.gz'',
          ''ftp://ena/fastq/ERR000/ERR000001/reads.fastq.gz''],
         [''md5sum'', ''data/fastq/reads.fastq.gz''],
         [''md5sum'', ''data/fastq/reads.fastq.gz''],
         [''wget'', ''--continue'', ''--timeout'', ''300'', ''--tries'',
          ''3'', ''--output-document'', ''data/fastq/reads.fastq.gz'',
          ''ftp://ena/fastq/ERR000/ERR000002/reads.fastq.gz''],
         [''md5sum'', ''data/fastq/reads.fastq.gz'']],
      requests = [(''https://ena/api/PRJ5'', []), (''https://ena/api/S5'', [])]\<rparr>"

section \<open>The Checksum Validator\<close>

lemma compare_checksum_fst:
  "fst (compare_checksum e [tool, p] expected p w)
     = accepts (computed_digest e tool p (files w)) expected"
  by (simp add: compare_checksum_def computed_digest_def accepts_def Let_def
           split: proc_result.splits option.splits)

lemma validate_file_fst: "fst (validate_file e cfg p info w) = validate_rules e cfg p info w"
  by (simp add: validate_file_def validate_rules_def Let_def compare_checksum_fst)

lemma validate_file_unknown:
  "validate_downloads cfg \<and> path_exists (files w) p \<and> st_size (files w) p \<noteq> 0
     \<and> truthy (checksum info) \<and> truthy (checksum_method info)
     \<and> lower (fmt (checksum_method info)) \<noteq> ''md5''
     \<and> lower (fmt (checksum_method info)) \<noteq> ''sha256''
   \<longrightarrow> validate_file e cfg p info w
        = (True, log_warning (''Unknown checksum method: '' @ lower (fmt (checksum_method info))) w)"
  by (simp add: validate_file_def Let_def)

lemma compare_checksum_none:
  assumes "computed_digest e tool p (files w) = None"
  shows "fst (compare_checksum e [tool, p] expected p w)
       \<and> (\<exists>m. log (snd (compare_checksum e [tool, p] expected p w)) = log w @ [(WARNING, m)])"
  using assms
  by (auto simp add: compare_checksum_def computed_digest_def Let_def log_warning_def
        split: proc_result.splits option.splits if_splits)

lemma compare_checksum_some:
  assumes "computed_digest e tool p (files w) = Some d"
  shows "fst (compare_checksum e [tool, p] expected p w) = (d = expected)
       \<and> log (snd (compare_checksum e [tool, p] expected p w)) = log w"
  using assms
  by (auto simp add: compare_checksum_def computed_digest_def Let_def
        split: proc_result.splits option.splits if_splits)

lemma validate_file_checksum:
  assumes "checksum_applies cfg p info w"
  shows "validate_file e cfg p info w
       = compare_checksum e [digest_tool (lower (fmt (checksum_method info))), p]
           (fmt (checksum info)) p w"
  using assms by (auto simp add: checksum_applies_def validate_file_def Let_def digest_tool_def)

lemma validate_file_no_digest:
  assumes "checksum_applies cfg p info w"
    and "computed_digest e (digest_tool (lower (fmt (checksum_method info)))) p (files w) = None"
  shows "fst (validate_file e cfg p info w)
       \<and> (\<exists>m. log (snd (validate_file e cfg p info w)) = log w @ [(WARNING, m)])"
  unfolding validate_file_checksum [OF assms(1)]
  by (rule compare_checksum_none [OF assms(2)])

lemma validate_file_digest:
  assumes "checksum_applies cfg p info w"
    and "computed_digest e (digest_tool (lower (fmt (checksum_method info)))) p (files w) = Some d"
  shows "fst (validate_file e cfg p info w) = (d = fmt (checksum info))
       \<and> log (snd (validate_file e cfg p info w)) = log w"
  unfolding validate_file_checksum [OF assms(1)]
  by (rule compare_checksum_some [OF assms(2)])

text \<open>
  Claim C2, as stated, fails: with MD5 requested and a digest tool that cannot be run, a
  damaged non-empty file is accepted, while rule (e) of the specification accepts a file
  only if its computed digest equals the expected checksum.
\<close>

theorem validate_file_tool_failure_counterexample:
  "fst (validate_file offline demo_cfg ''data/fastq/r1.fastq.gz'' md5_info damaged_world)
     \<noteq> validate_as_specified offline demo_cfg ''data/fastq/r1.fastq.gz'' md5_info damaged_world"
  by code_simp

text \<open>
  Claim C2, amended: the validator applies, in this order: true when validation is
  disabled; false when the file is missing or empty; true when no checksum or no
  algorithm is supplied; true, with a warning and nothing else done, when the algorithm
  (compared in lower case) is neither md5 nor sha256; otherwise the digest tool of the
  algorithm is run on the file, and when it computed no digest (it could not be
  started, exited with a status other than 0, or printed nothing) the file is accepted
  and exactly one entry, a warning, is added to the log; when it computed a digest the
  file is accepted iff the digest equals the expected checksum, compared exactly, and
  the log is left as it was.
\<close>

theorem validate_file_rules:
  "fst (validate_file e cfg p info w) = validate_rules e cfg p info w
   \<and> (validate_downloads cfg \<and> path_exists (files w) p \<and> st_size (files w) p \<noteq> 0
        \<and> truthy (checksum info) \<and> truthy (checksum_method info)
        \<and> lower (fmt (checksum_method info)) \<noteq> ''md5''
        \<and> lower (fmt (checksum_method info)) \<noteq> ''sha256''
      \<longrightarrow> validate_file e cfg p info w
           = (True, log_warning (''Unknown checksum method: ''
                                  @ lower (fmt (checksum_method info))) w))
   \<and> (checksum_applies cfg p info w
        \<and> computed_digest e (digest_tool (lower (fmt (checksum_method info)))) p (files w) = None
      \<longrightarrow> fst (validate_file e cfg p info w)
          \<and> (\<exists>m. log (snd (validate_file e cfg p info w)) = log w @ [(WARNING, m)]))
   \<and> (checksum_applies cfg p info w
        \<and> computed_digest e (digest_tool (lower (fmt (checksum_method info)))) p (files w) = Some d
      \<longrightarrow> fst (validate_file e cfg p info w) = (d = fmt (checksum info))
          \<and> log (snd (validate_file e cfg p info w)) = log w)"
proof (intro conjI)
  show "fst (validate_file e cfg p info w) = validate_rules e cfg p info w"
    by (rule validate_file_fst)
next
  show "validate_downloads cfg \<and> path_exists (files w) p \<and> st_size (files w) p \<noteq> 0
        \<and> truthy (checksum info) \<and> truthy (checksum_method info)
        \<and> lower (fmt (checksum_method info)) \<noteq> ''md5''
        \<and> lower (fmt (checksum_method info)) \<noteq> ''sha256''
      \<longrightarrow> validate_file e cfg p info w
           = (True, log_warning (''Unknown checksum method: ''
                                  @ lower (fmt (checksum_method info))) w)"
    by (rule validate_file_unknown)
next
  show "checksum_applies cfg p info w
        \<and> computed_digest e (digest_tool (lower (fmt (checksum_method info)))) p (files w) = None
      \<longrightarrow> fst (validate_file e cfg p info w)
          \<and> (\<exists>m. log (snd (validate_file e cfg p info w)) = log w @ [(WARNING, m)])"
    by (intro impI, elim conjE) (rule validate_file_no_digest)
next
  show "checksum_applies cfg p info w
        \<and> computed_digest e (digest_tool (lower (fmt (checksum_method info)))) p (files w) = Some d
      \<longrightarrow> fst (validate_file e cfg p info w) = (d = fmt (checksum info))
          \<and> log (snd (validate_file e cfg p info w)) = log w"
    by (intro impI, elim conjE) (rule validate_file_digest)
qed

theorem validate_file_rules_witness:
  "validate_file offline demo_cfg ''data/fastq/r1.fastq.gz'' crc32_info damaged_world
       = (True, log_warning ''Unknown checksum method: crc32'' damaged_world)
   \<and> (fst (validate_file offline demo_cfg ''data/fastq/r1.fastq.gz'' md5_info damaged_world)
       \<and> (\<exists>m. log (snd (validate_file offline demo_cfg ''data/fastq/r1.fastq.gz'' md5_info
                           damaged_world)) = log damaged_world @ [(WARNING, m)]))
   \<and> (fst (validate_file working demo_cfg ''data/fastq/r1.fastq.gz'' md5_info damaged_world)
         = (''d41d8cd98f00b204e9800998ecf8427e'' = fmt (checksum md5_info))
       \<and> log (snd (validate_file working demo_cfg ''data/fastq/r1.fastq.gz'' md5_info
                      damaged_world)) = log damaged_world)"
proof -
  have h1: "validate_downloads demo_cfg
      \<and> path_exists (files damaged_world) ''data/fastq/r1.fastq.gz''
      \<and> st_size (files damaged_world) ''data/fastq/r1.fastq.gz'' \<noteq> 0
      \<and> truthy (checksum crc32_info) \<and> truthy (checksum_method crc32_info)
      \<and> lower (fmt (checksum_method crc32_info)) \<noteq> ''md5''
      \<and> lower (fmt (checksum_method crc32_info)) \<noteq> ''sha256''"
    by code_simp
  have low: "''Unknown checksum method: '' @ lower (fmt (checksum_method crc32_info))
           = ''Unknown checksum method: crc32''"
    by code_simp
  have h2: "checksum_applies demo_cfg ''data/fastq/r1.fastq.gz'' md5_info damaged_world
      \<and> computed_digest offline (digest_tool (lower (fmt (checksum_method md5_info))))
           ''data/fastq/r1.fastq.gz'' (files damaged_world) = None"
    by code_simp
  have h3: "checksum_applies demo_cfg ''data/fastq/r1.fastq.gz'' md5_info damaged_world
      \<and> computed_digest working (digest_tool (lower (fmt (checksum_method md5_info))))
           ''data/fastq/r1.fastq.gz'' (files damaged_world)
          = Some ''d41d8cd98f00b204e9800998ecf8427e''"
    by code_simp
  note t1 = validate_file_rules
    [of offline demo_cfg "''data/fastq/r1.fastq.gz''" crc32_info damaged_world]
  note t2 = validate_file_rules
    [of offline demo_cfg "''data/fastq/r1.fastq.gz''" md5_info damaged_world]
  note t3 = validate_file_rules
    [of working demo_cfg "''data/fastq/r1.fastq.gz''" md5_info damaged_world
        "''d41d8cd98f00b204e9800998ecf8427e''"]
  note c1 = t1 [THEN conjunct2, THEN conjunct1, THEN mp, OF h1, unfolded low]
  note c2 = t2 [THEN conjunct2, THEN conjunct2, THEN conjunct1, THEN mp, OF h2]
  note c3 = t3 [THEN conjunct2, THEN conjunct2, THEN conjunct2, THEN mp, OF h3]
  show ?thesis by (rule conjI [OF c1 conjI [OF c2 c3]])
qed

section \<open>The Transfer Executor\<close>

lemma log_fields [simp]:
  "files (log_info m w) = files w" "spawned (log_info m w) = spawned w"
  "requests (log_info m w) = requests w"
  "files (log_warning m w) = files w" "spawned (log_warning m w) = spawned w"
  "requests (log_warning m w) = requests w"
  "files (log_error m w) = files w" "spawned (log_error m w) = spawned w"
  "requests (log_error m w) = requests w"
  by (simp_all add: log_info_def log_warning_def log_error_def)

lemma transport_calls_log [simp]:
  "transport_calls (log_info m w) = transport_calls w"
  "transport_calls (log_warning m w) = transport_calls w"
  "transport_calls (log_error m w) = transport_calls w"
  by (simp_all add: transport_calls_def)

lemma compare_checksum_frame:
  assumes "tool = ''md5sum'' \<or> tool = ''sha256sum''"
  shows "files (snd (compare_checksum e [tool, p] x p w)) = files w"
    and "requests (snd (compare_checksum e [tool, p] x p w)) = requests w"
    and "transport_calls (snd (compare_checksum e [tool, p] x p w)) = transport_calls w"
  using assms
  by (auto simp add: compare_checksum_def Let_def transport_calls_def is_transport_def
        split: proc_result.splits option.splits)

lemma validate_file_frame:
  shows "files (snd (validate_file e cfg p info w)) = files w"
    and "requests (snd (validate_file e cfg p info w)) = requests w"
    and "transport_calls (snd (validate_file e cfg p info w)) = transport_calls w"
  by (simp_all add: validate_file_def Let_def compare_checksum_frame)

lemma validate_rules_cong:
  assumes "map_of (files w2) p = map_of (files w1) p"
  shows "validate_rules e cfg p info w2 = validate_rules e cfg p info w1"
  using assms by (simp add: validate_rules_def path_exists_def st_size_def computed_digest_def)

lemma validate_rules_exists:
  "validate_downloads cfg \<Longrightarrow> validate_rules e cfg p info w \<Longrightarrow> path_exists (files w) p"
  by (simp add: validate_rules_def Let_def split: if_splits)

lemma download_fastq_file_skip:
  assumes "path_exists (files w) (joinpath (fastq_dir cfg) name)"
    and "fst (validate_file e cfg (joinpath (fastq_dir cfg) name) info w)"
  shows "download_fastq_file e cfg (Some acc) (Some name) info w
       = Inr (True, log_info (''File already exists and is valid: '' @ name)
                      (snd (validate_file e cfg (joinpath (fastq_dir cfg) name) info w)))"
  unfolding download_fastq_file_def
  using assms by (simp only: Let_def split_beta option.case if_True)

lemma download_fastq_file_fetch:
  assumes "\<not> (path_exists (files w) (joinpath (fastq_dir cfg) name)
             \<and> fst (validate_file e cfg (joinpath (fastq_dir cfg) name) info w))"
  shows "\<exists>w0. files w0 = files w \<and> transport_calls w0 = transport_calls w
            \<and> requests w0 = requests w
            \<and> download_fastq_file e cfg (Some acc) (Some name) info w
              = Inr (fetch_file e cfg name (joinpath (fastq_dir cfg) name)
                      (ena_ftp_url cfg acc name) info w0)"
proof (cases "path_exists (files w) (joinpath (fastq_dir cfg) name)")
  case True
  with assms have nv: "\<not> fst (validate_file e cfg (joinpath (fastq_dir cfg) name) info w)"
    by simp
  have "download_fastq_file e cfg (Some acc) (Some name) info w
      = Inr (fetch_file e cfg name (joinpath (fastq_dir cfg) name)
              (ena_ftp_url cfg acc name) info
              (snd (validate_file e cfg (joinpath (fastq_dir cfg) name) info w)))"
    unfolding download_fastq_file_def
    using True nv by (simp only: Let_def split_beta option.case if_True if_False)
  then show ?thesis by (intro exI [of _ "snd (validate_file e cfg (joinpath (fastq_dir cfg) name) info w)"] conjI validate_file_frame)
next
  case False
  have "download_fastq_file e cfg (Some acc) (Some name) info w
      = Inr (fetch_file e cfg name (joinpath (fastq_dir cfg) name)
              (ena_ftp_url cfg acc name) info w)"
    unfolding download_fastq_file_def
    using False by (simp only: Let_def split_beta option.case if_False fst_conv snd_conv)
  then show ?thesis by (intro exI [of _ w] conjI refl)
qed

lemma fetch_file_cases:
  assumes rt: "run_transport e (spawned w) (files w) (wget_cmd cfg p url) (ena_timeout cfg)
                 = (result, disk)"
  shows "fetch_file e cfg name p url info w =
     (let w3 = (log_info (''Downloading: '' @ name) w)
                    \<lparr>spawned := spawned w @ [wget_cmd cfg p url], files := disk\<rparr> in
      case result of
        Completed returncode out err \<Rightarrow>
          if returncode = 0 then
            if fst (validate_file e cfg p info w3)
            then (True, log_info (''Successfully downloaded: '' @ name)
                          (snd (validate_file e cfg p info w3)))
            else (False, unlink p (log_error (''File validation failed: '' @ name)
                                     (snd (validate_file e cfg p info w3))))
          else (False, log_error (''Download failed for '' @ name @ '': '' @ err) w3)
      | ProcRaised x \<Rightarrow>
          if exn_cls x = TimeoutExpired then
            (False, unlink p (log_error (''Download timeout for '' @ name) w3))
          else
            (False, unlink p (log_error (''Error downloading '' @ name @ '': '' @ exn_str x) w3)))"
  unfolding fetch_file_def
  by (simp only: log_fields rt Let_def split_beta fst_conv snd_conv prod.case)

lemma fetch_file_success_aux:
  assumes rt: "run_transport e (spawned w) (files w) (wget_cmd cfg p url) (ena_timeout cfg)
                 = (result, disk)"
    and ok: "fetch_file e cfg name p url info w = (True, w1)"
  shows "\<exists>w3. fst (validate_file e cfg p info w3) \<and> files w1 = files w3"
proof (cases result)
  case (Completed rc out err)
  show ?thesis
  proof (cases "rc = 0")
    case True
    show ?thesis
      using ok unfolding fetch_file_cases [OF rt] Completed Let_def proc_result.case
      using True
      apply (simp only: if_True split: if_splits)
       apply (metis Pair_inject log_fields(1) validate_file_frame(1))
      apply (simp only: prod.inject simp_thms)
      done
  next
    case False
    show ?thesis
      using ok unfolding fetch_file_cases [OF rt] Completed Let_def proc_result.case
      using False by (simp only: if_False prod.inject simp_thms)
  qed
next
  case (ProcRaised x)
  show ?thesis
    using ok unfolding fetch_file_cases [OF rt] ProcRaised Let_def proc_result.case
    by (simp only: prod.inject simp_thms split: if_splits)
qed


lemma fetch_file_success:
  assumes "fetch_file e cfg name p url info w = (True, w1)"
  shows "validate_rules e cfg p info w1"
proof -
  obtain result disk where rt:
    "run_transport e (spawned w) (files w) (wget_cmd cfg p url) (ena_timeout cfg) = (result, disk)"
    by (cases "run_transport e (spawned w) (files w) (wget_cmd cfg p url) (ena_timeout cfg)")
  from fetch_file_success_aux [OF rt assms]
  obtain w3 where ok: "fst (validate_file e cfg p info w3)" and f: "files w1 = files w3"
    by blast
  from f have "validate_rules e cfg p info w1 = validate_rules e cfg p info w3"
    by (intro validate_rules_cong arg_cong [of _ _ "\<lambda>d. map_of d p"])
  with ok show ?thesis by (simp only: validate_file_fst)
qed

lemma download_fastq_file_success_valid:
  assumes "download_fastq_file e cfg (Some acc) (Some name) info w = Inr (True, w1)"
  shows "validate_rules e cfg (joinpath (fastq_dir cfg) name) info w1"
proof (cases "path_exists (files w) (joinpath (fastq_dir cfg) name)
              \<and> fst (validate_file e cfg (joinpath (fastq_dir cfg) name) info w)")
  case True
  then have "download_fastq_file e cfg (Some acc) (Some name) info w
     = Inr (True, log_info (''File already exists and is valid: '' @ name)
                    (snd (validate_file e cfg (joinpath (fastq_dir cfg) name) info w)))"
    by (simp only: download_fastq_file_skip)
  with assms have "w1 = log_info (''File already exists and is valid: '' @ name)
                    (snd (validate_file e cfg (joinpath (fastq_dir cfg) name) info w))"
    by (simp only: sum.inject prod.inject simp_thms)
  then have "files w1 = files w" by (simp only: log_fields validate_file_frame)
  then have "validate_rules e cfg (joinpath (fastq_dir cfg) name) info w1
           = validate_rules e cfg (joinpath (fastq_dir cfg) name) info w"
    by (intro validate_rules_cong arg_cong [of _ _ "\<lambda>d. map_of d (joinpath (fastq_dir cfg) name)"])
  with True show ?thesis by (simp only: validate_file_fst)
next
  case False
  from download_fastq_file_fetch [OF False, of acc]
  obtain w0 where "download_fastq_file e cfg (Some acc) (Some name) info w
      = Inr (fetch_file e cfg name (joinpath (fastq_dir cfg) name)
               (ena_ftp_url cfg acc name) info w0)"
    by (elim exE conjE)
  with assms have "fetch_file e cfg name (joinpath (fastq_dir cfg) name)
      (ena_ftp_url cfg acc name) info w0 = (True, w1)"
    by (simp only: sum.inject)
  then show ?thesis by (rule fetch_file_success)
qed

lemma download_fastq_file_idempotent:
  assumes "path_exists (files w) (joinpath (fastq_dir cfg) name)"
    and "fst (validate_file e cfg (joinpath (fastq_dir cfg) name) info w)"
  shows "\<exists>w'. download_fastq_file e cfg (Some acc) (Some name) info w = Inr (True, w')
            \<and> transport_calls w' = transport_calls w \<and> requests w' = requests w
            \<and> files w' = files w"
proof (intro exI conjI)
  show "download_fastq_file e cfg (Some acc) (Some name) info w
       = Inr (True, log_info (''File already exists and is valid: '' @ name)
                      (snd (validate_file e cfg (joinpath (fastq_dir cfg) name) info w)))"
    by (rule download_fastq_file_skip [OF assms])
qed (simp_all only: log_fields transport_calls_log validate_file_frame)

lemma download_fastq_file_again:
  assumes first: "download_fastq_file e cfg (Some acc) (Some name) info v = Inr (True, v1)"
    and there: "validate_downloads cfg \<or> path_exists (files v1) (joinpath (fastq_dir cfg) name)"
    and same: "map_of (files v2) (joinpath (fastq_dir cfg) name)
             = map_of (files v1) (joinpath (fastq_dir cfg) name)"
  shows "\<exists>v3. download_fastq_file e cfg (Some acc) (Some name) info v2 = Inr (True, v3)
            \<and> transport_calls v3 = transport_calls v2 \<and> requests v3 = requests v2
            \<and> files v3 = files v2"
proof -
  have ok1: "validate_rules e cfg (joinpath (fastq_dir cfg) name) info v1"
    using first by (rule download_fastq_file_success_valid)
  with there have ex1: "path_exists (files v1) (joinpath (fastq_dir cfg) name)"
    using validate_rules_exists by fast
  from same ex1 have ex2: "path_exists (files v2) (joinpath (fastq_dir cfg) name)"
    by (simp add: path_exists_def)
  have "validate_rules e cfg (joinpath (fastq_dir cfg) name) info v2
      = validate_rules e cfg (joinpath (fastq_dir cfg) name) info v1"
    using same by (rule validate_rules_cong)
  with ok1 have ok2: "fst (validate_file e cfg (joinpath (fastq_dir cfg) name) info v2)"
    by (simp only: validate_file_fst)
  from ex2 ok2 show ?thesis by (rule download_fastq_file_idempotent)
qed

lemma download_sra_run_skip:
  assumes "glob e (files w) (fastq_dir cfg) (fmt acc @ ''*.fastq*'') = Inr found"
    and "found \<noteq> []"
  shows "download_sra_run e cfg acc w
       = (Inr True, log_info (''Run '' @ fmt acc @ '' already downloaded'')
                      (log_info (''Downloading SRA run: '' @ fmt acc) w))"
  unfolding download_sra_run_def
  using assms by (simp only: Let_def log_fields sum.case if_True simp_thms)

lemma download_sra_run_idempotent:
  assumes "glob e (files w) (fastq_dir cfg) (fmt acc @ ''*.fastq*'') = Inr found"
    and "found \<noteq> []"
  shows "\<exists>w'. download_sra_run e cfg acc w = (Inr True, w')
            \<and> spawned w' = spawned w \<and> requests w' = requests w \<and> files w' = files w"
proof (intro exI conjI)
  show "download_sra_run e cfg acc w
       = (Inr True, log_info (''Run '' @ fmt acc @ '' already downloaded'')
                      (log_info (''Downloading SRA run: '' @ fmt acc) w))"
    by (rule download_sra_run_skip [OF assms])
qed (simp_all only: log_fields)

lemma download_sra_run_success_glob:
  "fst (download_sra_run e cfg acc w) = Inr True \<longrightarrow>
     (\<exists>found. glob e (files (snd (download_sra_run e cfg acc w))) (fastq_dir cfg)
                 (fmt acc @ ''*.fastq*'') = Inr found \<and> found \<noteq> [])"
  unfolding download_sra_run_def Let_def split_beta
  by (auto split: sum.split option.split proc_result.split)

lemma glob_mono:
  assumes "set (map fst d1) \<subseteq> set (map fst d2)"
    and "glob e d1 dir pat = Inr found" and "found \<noteq> []"
  shows "\<exists>found'. glob e d2 dir pat = Inr found' \<and> found' \<noteq> []"
proof -
  from assms(2) have ge: "glob_error e pat = None"
    by (simp add: glob_def split: option.splits)
  let ?P = "\<lambda>p. case dir_entry dir p of None \<Rightarrow> False | Some n \<Rightarrow> fnmatch e n pat"
  from assms(2) ge have "found = filter ?P (remdups (map fst d1))"
    by (simp add: glob_def)
  with assms(3) obtain p where "p \<in> set (map fst d1)" "?P p"
    by (metis filter_False set_remdups)
  with assms(1) have "p \<in> set (remdups (map fst d2))" "?P p" by auto
  then have "filter ?P (remdups (map fst d2)) \<noteq> []"
    by (metis filter_empty_conv)
  with ge show ?thesis by (simp add: glob_def)
qed

lemma download_sra_run_again:
  assumes first: "download_sra_run e cfg acc v = (Inr True, v1)"
    and kept: "set (map fst (files v1)) \<subseteq> set (map fst (files v2))"
  shows "\<exists>v3. download_sra_run e cfg acc v2 = (Inr True, v3)
            \<and> spawned v3 = spawned v2 \<and> requests v3 = requests v2 \<and> files v3 = files v2"
proof -
  from first download_sra_run_success_glob [of e cfg acc v]
  obtain found where "glob e (files v1) (fastq_dir cfg) (fmt acc @ ''*.fastq*'') = Inr found"
    and "found \<noteq> []"
    by auto
  from glob_mono [OF kept this]
  obtain found' where "glob e (files v2) (fastq_dir cfg) (fmt acc @ ''*.fastq*'') = Inr found'"
    and "found' \<noteq> []"
    by auto
  then show ?thesis by (rule download_sra_run_idempotent)
qed

text \<open>
  Claim C1 (the code misses it): when \<^verbatim>\<open>wget\<close> exits with a non-zero status, the
  Transfer Executor reports the failure and logs the diagnostic text, but the partial
  file stays at the destination path. Here \<^verbatim>\<open>wget\<close> wrote four bytes and exited with
  status 4; after \<^verbatim>\<open>download_fastq_file\<close> returned \<^verbatim>\<open>False\<close> the four bytes are still
  on disk.
\<close>

theorem download_fastq_file_nonzero_exit_keeps_partial:
  "map_sum exn_cls (\<lambda>r. (fst r, map_of (files (snd r)) ''data/fastq/r1.fastq.gz'', log (snd r)))
     (download_fastq_file failing_wget demo_cfg (Some ''ERR000001'') (Some ''r1.fastq.gz'')
        md5_info empty_world)
   = Inr (False, Some ''@SEQ'',
          [(INFO, ''Downloading: r1.fastq.gz''),
           (ERROR, ''Download failed for r1.fastq.gz: Network failure'')])"
  by code_simp




section \<open>Counting in the ENA acquisition\<close>

lemma unlink_fields [simp]:
  "requests (unlink p w) = requests w" "spawned (unlink p w) = spawned w"
  "log (unlink p w) = log w"
  by (simp_all add: unlink_def)

lemma fetch_file_requests: "requests (snd (fetch_file e cfg name p url info w)) = requests w"
proof -
  obtain result disk where rt:
    "run_transport e (spawned w) (files w) (wget_cmd cfg p url) (ena_timeout cfg) = (result, disk)"
    by (cases "run_transport e (spawned w) (files w) (wget_cmd cfg p url) (ena_timeout cfg)")
  show ?thesis
    unfolding fetch_file_cases [OF rt] Let_def
    by (cases result) (simp_all add: validate_file_frame)
qed

lemma download_fastq_file_requests:
  assumes "download_fastq_file e cfg a n info w = Inr (b, w')"
  shows "requests w' = requests w"
proof -
  from assms obtain acc name where a: "a = Some acc" and n: "n = Some name"
    by (cases a; cases n) (simp_all add: download_fastq_file_def)
  show ?thesis
  proof (cases "path_exists (files w) (joinpath (fastq_dir cfg) name)
                \<and> fst (validate_file e cfg (joinpath (fastq_dir cfg) name) info w)")
    case True
    then have "download_fastq_file e cfg (Some acc) (Some name) info w
       = Inr (True, log_info (''File already exists and is valid: '' @ name)
                      (snd (validate_file e cfg (joinpath (fastq_dir cfg) name) info w)))"
      by (simp only: download_fastq_file_skip)
    with assms a n have "w' = log_info (''File already exists and is valid: '' @ name)
                      (snd (validate_file e cfg (joinpath (fastq_dir cfg) name) info w))"
      by (simp only: sum.inject prod.inject simp_thms)
    then show ?thesis by (simp only: log_fields validate_file_frame)
  next
    case False
    from download_fastq_file_fetch [OF False, of acc]
    obtain w0 where r0: "requests w0 = requests w"
      and "download_fastq_file e cfg (Some acc) (Some name) info w
        = Inr (fetch_file e cfg name (joinpath (fastq_dir cfg) name)
                 (ena_ftp_url cfg acc name) info w0)"
      by (elim exE conjE)
    with assms a n have "w' = snd (fetch_file e cfg name (joinpath (fastq_dir cfg) name)
                 (ena_ftp_url cfg acc name) info w0)"
      by (simp only: sum.inject) (metis snd_conv)
    with r0 show ?thesis by (simp only: fetch_file_requests)
  qed
qed

lemma accounted_refl: "accounted 0 st (None, st)"
  by (cases st) (simp add: accounted_def)

lemma accounted_skip: "accounted n st r \<Longrightarrow> fst r \<noteq> None \<Longrightarrow> accounted (n + m) st r"
  by (cases st; cases r) (auto simp add: accounted_def)

lemma accounted_trans:
  "accounted n st (None, st') \<Longrightarrow> accounted m st' r \<Longrightarrow> accounted (n + m) st r"
  by (cases st; cases st'; cases r) (auto simp add: accounted_def split: if_splits)

lemma accounted_raise: "accounted (Suc n) (ok, s, w) (Some x, ok, s, w)"
  by (simp add: accounted_def)

lemma accounted_success:
  "requests w' = requests w \<Longrightarrow>
   accounted 1 (ok, s, w) (None, ok, s\<lparr>downloaded_files := downloaded_files s + 1\<rparr>, w')"
  by (simp add: accounted_def)

lemma accounted_failure:
  "requests w' = requests w \<Longrightarrow>
   accounted 1 (ok, s, w) (None, False, s\<lparr>failed_files := failed_files s + 1\<rparr>, w')"
  by (simp add: accounted_def)

lemma download_files_accounted:
  "accounted (length (filter eligible fs)) (ok, s, w) (download_files e cfg acc fs (ok, s, w))"
proof (induction fs arbitrary: ok s w)
  case Nil
  show ?case by (simp add: accounted_refl)
next
  case (Cons f fs)
  show ?case
  proof (cases "eligible f")
    case False
    with Cons show ?thesis by simp
  next
    case True
    show ?thesis
    proof (cases "download_fastq_file e cfg acc (filename f) f w")
      case (Inl x)
      with True show ?thesis by (simp add: accounted_raise)
    next
      case (Inr r)
      obtain success w' where r: "r = (success, w')" by (cases r)
      with Inr have rq: "requests w' = requests w"
        using download_fastq_file_requests by simp
      show ?thesis
      proof (cases success)
        case True
        from accounted_trans [OF accounted_success [OF rq]
               Cons.IH [of ok "s\<lparr>downloaded_files := downloaded_files s + 1\<rparr>" w']]
        show ?thesis using \<open>eligible f\<close> Inr r True by simp
      next
        case False
        from accounted_trans [OF accounted_failure [OF rq]
               Cons.IH [of False "s\<lparr>failed_files := failed_files s + 1\<rparr>" w']]
        show ?thesis using \<open>eligible f\<close> Inr r False by simp
      qed
    qed
  qed
qed

lemma download_runs_accounted:
  "accounted (eligible_count runs) st (download_runs e cfg runs st)"
proof (induction runs arbitrary: st)
  case Nil
  show ?case by (simp add: accounted_refl eligible_count_def)
next
  case (Cons r rs)
  obtain ok s w where st: "st = (ok, s, w)" by (cases st)
  have n: "eligible_count (r # rs) = length (filter eligible (run_files r)) + eligible_count rs"
    by (simp add: eligible_count_def)
  obtain x st' where d: "download_files e cfg (run_accession r) (run_files r) st = (x, st')"
    by (cases "download_files e cfg (run_accession r) (run_files r) st")
  from download_files_accounted [of "run_files r" ok s w e cfg "run_accession r"] st d
  have a: "accounted (length (filter eligible (run_files r))) st (x, st')" by simp
  show ?case
  proof (cases x)
    case None
    with a Cons.IH [of st'] have "accounted (eligible_count (r # rs)) st (download_runs e cfg rs st')"
      unfolding n by (simp add: accounted_trans)
    with d None show ?thesis by simp
  next
    case (Some y)
    with a have "accounted (eligible_count (r # rs)) st (x, st')"
      unfolding n by (simp add: accounted_skip)
    with d Some show ?thesis by simp
  qed
qed

lemma fetch_xml_requests: "requests (snd (fetch_xml e url ps t w)) = requests w @ [(url, ps)]"
  by (simp add: fetch_xml_def Let_def split: http_result.split option.split)

lemma get_sample_runs_requests:
  "requests (snd (get_sample_runs e cfg a w))
     = requests w @ [(ena_base_url cfg @ ''/'' @ fmt a, [])]"
proof -
  obtain r w1 where f: "fetch_xml e (ena_base_url cfg @ ''/'' @ fmt a) [] (ena_timeout cfg)
                          (log_info (''Getting runs for sample: '' @ fmt a) w) = (r, w1)"
    by (cases "fetch_xml e (ena_base_url cfg @ ''/'' @ fmt a) [] (ena_timeout cfg)
                 (log_info (''Getting runs for sample: '' @ fmt a) w)")
  from fetch_xml_requests [of e "ena_base_url cfg @ ''/'' @ fmt a" "[]" "ena_timeout cfg"
         "log_info (''Getting runs for sample: '' @ fmt a) w"] f
  have "requests w1 = requests w @ [(ena_base_url cfg @ ''/'' @ fmt a, [])]" by simp
  with f show ?thesis
    unfolding get_sample_runs_def Let_def by (cases r) simp_all
qed

lemma process_sample_counts:
  fixes e cfg smp s w
  defines "runs \<equiv> fst (get_sample_runs e cfg (smp_accession smp) w)"
    and "s' \<equiv> fst (process_sample e cfg smp (s, w))"
  defines "good \<equiv> runs \<noteq> [] \<and> downloaded_files s' = downloaded_files s + eligible_count runs"
  shows "downloaded_samples s' = downloaded_samples s + (if good then 1 else 0)"
    and "failed_samples s' = failed_samples s + (if good then 0 else 1)"
    and "total_samples s' = total_samples s"
    and "requests (snd (process_sample e cfg smp (s, w)))
           = requests w @ [(ena_base_url cfg @ ''/'' @ fmt (smp_accession smp), [])]"
proof -
  obtain w1 where g: "get_sample_runs e cfg (smp_accession smp) w = (runs, w1)"
    unfolding runs_def by (cases "get_sample_runs e cfg (smp_accession smp) w") simp
  from get_sample_runs_requests [of e cfg "smp_accession smp" w] g
  have rq: "requests w1 = requests w @ [(ena_base_url cfg @ ''/'' @ fmt (smp_accession smp), [])]"
    by simp
  obtain x ok' s2 w2 where d: "download_runs e cfg runs (True, s, w1) = (x, ok', s2, w2)"
    by (cases "download_runs e cfg runs (True, s, w1)")
  from download_runs_accounted [of runs "(True, s, w1)" e cfg] d
  have a: "accounted (eligible_count runs) (True, s, w1) (x, ok', s2, w2)" by simp
  have all: "downloaded_samples s' = downloaded_samples s + (if good then 1 else 0)
      \<and> failed_samples s' = failed_samples s + (if good then 0 else 1)
      \<and> total_samples s' = total_samples s
      \<and> requests (snd (process_sample e cfg smp (s, w)))
           = requests w @ [(ena_base_url cfg @ ''/'' @ fmt (smp_accession smp), [])]"
  proof (cases "runs = []")
    case True
    with g rq show ?thesis
      unfolding good_def s'_def process_sample_def Let_def by simp
  next
    case False
    show ?thesis
    proof (cases x)
      case None
      with False g d a rq show ?thesis
        unfolding good_def s'_def process_sample_def Let_def
        by (cases ok') (auto simp add: accounted_def)
    next
      case (Some y)
      with False g d a rq show ?thesis
        unfolding good_def s'_def process_sample_def Let_def
        by (auto simp add: accounted_def)
    qed
  qed
  from all show "downloaded_samples s' = downloaded_samples s + (if good then 1 else 0)" by simp
  from all show "failed_samples s' = failed_samples s + (if good then 0 else 1)" by simp
  from all show "total_samples s' = total_samples s" by simp
  from all show "requests (snd (process_sample e cfg smp (s, w)))
           = requests w @ [(ena_base_url cfg @ ''/'' @ fmt (smp_accession smp), [])]" by simp
qed

lemma write_file_fields [simp]:
  "requests (write_file p c w) = requests w" "spawned (write_file p c w) = spawned w"
  "log (write_file p c w) = log w"
  by (simp_all add: write_file_def)

lemma fold_process_sample:
  "downloaded_samples (fst (fold (process_sample e cfg) xs (s, w)))
     + failed_samples (fst (fold (process_sample e cfg) xs (s, w)))
     = downloaded_samples s + failed_samples s + length xs
   \<and> total_samples (fst (fold (process_sample e cfg) xs (s, w))) = total_samples s
   \<and> requests (snd (fold (process_sample e cfg) xs (s, w)))
       = requests w @ map (sample_request cfg) xs"
proof (induction xs arbitrary: s w)
  case Nil
  show ?case by simp
next
  case (Cons x xs)
  obtain s1 w1 where p: "process_sample e cfg x (s, w) = (s1, w1)"
    by (cases "process_sample e cfg x (s, w)")
  from process_sample_counts [of e cfg x s w] p
  have "downloaded_samples s1 + failed_samples s1 = downloaded_samples s + failed_samples s + 1"
    and "total_samples s1 = total_samples s"
    and "requests w1 = requests w @ [sample_request cfg x]"
    by (simp_all add: sample_request_def)
  with Cons.IH [of s1 w1] p show ?case by simp
qed

lemma get_project_samples_requests:
  "requests (snd (get_project_samples e cfg acc w))
     = requests w @ [(ena_base_url cfg @ ''/'' @ acc, [])]"
proof -
  obtain r w1 where f: "fetch_xml e (ena_base_url cfg @ ''/'' @ acc) [] (ena_timeout cfg)
                          (log_info (''Getting samples for project: '' @ acc) w) = (r, w1)"
    by (cases "fetch_xml e (ena_base_url cfg @ ''/'' @ acc) [] (ena_timeout cfg)
                 (log_info (''Getting samples for project: '' @ acc) w)")
  from fetch_xml_requests [of e "ena_base_url cfg @ ''/'' @ acc" "[]" "ena_timeout cfg"
         "log_info (''Getting samples for project: '' @ acc) w"] f
  have "requests w1 = requests w @ [(ena_base_url cfg @ ''/'' @ acc, [])]" by simp
  with f show ?thesis
    unfolding get_project_samples_def Let_def by (cases r) simp_all
qed

lemma ena_download_project_data_facts:
  fixes e cfg acc m w
  defines "units \<equiv> limit_units m (resolved_samples e cfg acc w)"
    and "s \<equiv> fst (ena_download_project_data e cfg acc m w)"
  shows "total_samples s = length units"
    and "downloaded_samples s + failed_samples s = length units"
    and "requests (snd (ena_download_project_data e cfg acc m w))
           = requests w @ (ena_base_url cfg @ ''/'' @ acc, []) # map (sample_request cfg) units"
proof -
  obtain all w1 where g: "get_project_samples e cfg acc
        (log_info (''Starting download for project: '' @ acc) w) = (all, w1)"
    by (cases "get_project_samples e cfg acc
        (log_info (''Starting download for project: '' @ acc) w)")
  then have u: "units = limit_units m all"
    by (simp add: units_def resolved_samples_def)
  from get_project_samples_requests [of e cfg acc
         "log_info (''Starting download for project: '' @ acc) w"] g
  have rq: "requests w1 = requests w @ [(ena_base_url cfg @ ''/'' @ acc, [])]" by simp
  define s0 where "s0 = \<lparr>project_accession = acc, total_samples = length units,
      downloaded_samples = 0, failed_samples = 0, downloaded_files = 0, failed_files = 0,
      errors = []\<rparr>"
  define w2 where "w2 = write_file (joinpath (metadata_dir cfg) (acc @ ''_metadata.json''))
                 (dump_ena_metadata e acc units (strftime e)) w1"
  obtain sF wF where f: "fold (process_sample e cfg) units (s0, w2) = (sF, wF)"
    by (cases "fold (process_sample e cfg) units (s0, w2)")
  from fold_process_sample [of e cfg units s0 w2] f rq
  have "downloaded_samples sF + failed_samples sF = length units"
    and "total_samples sF = length units"
    and "requests wF = requests w @ (ena_base_url cfg @ ''/'' @ acc, []) # map (sample_request cfg) units"
    by (simp_all add: s0_def w2_def)
  moreover have "ena_download_project_data e cfg acc m w
      = (sF, log_info (''Summary: '' @ str_nat (downloaded_samples sF) @ ''/''
                          @ str_nat (total_samples sF) @ '' samples downloaded'')
             (log_info (''Download completed for project '' @ acc)
               (write_file (joinpath (metadata_dir cfg) (acc @ ''_download_summary.json''))
                  (dump_ena_summary e sF) wF)))"
    unfolding ena_download_project_data_def Let_def
    using g f by (simp add: u s0_def w2_def)
  ultimately show "total_samples s = length units"
    and "downloaded_samples s + failed_samples s = length units"
    and "requests (snd (ena_download_project_data e cfg acc m w))
           = requests w @ (ena_base_url cfg @ ''/'' @ acc, []) # map (sample_request cfg) units"
    by (simp_all add: s_def)
qed

section \<open>Counting in the NCBI acquisition\<close>

lemma download_sra_run_pattern_ok:
  "fst (download_sra_run e cfg acc w) = Inr b \<Longrightarrow> glob_error e (fmt acc @ ''*.fastq*'') = None"
  unfolding download_sra_run_def Let_def
  by (cases "glob_error e (fmt acc @ ''*.fastq*'')") (simp_all add: glob_def)

lemma collect_result_counts:
  fixes e cfg acc s w
  defines "s' \<equiv> fst (collect_result e cfg acc (s, w))"
  shows "downloaded_runs s' + failed_runs s' = downloaded_runs s + failed_runs s + 1
    \<and> total_runs s' = total_runs s
    \<and> ncbi_failed_files s' = ncbi_failed_files s
    \<and> length (ncbi_errors s') + failed_runs s = length (ncbi_errors s) + failed_runs s'
    \<and> failed_runs s \<le> failed_runs s'"
proof -
  obtain r w1 where d: "download_sra_run e cfg acc w = (r, w1)"
    by (cases "download_sra_run e cfg acc w")
  show ?thesis
  proof (cases r)
    case (Inl x)
    with d show ?thesis unfolding s'_def collect_result_def Let_def by simp
  next
    case (Inr success)
    with d have "glob_error e (fmt acc @ ''*.fastq*'') = None"
      using download_sra_run_pattern_ok [of e cfg acc w success] by simp
    then obtain found where "glob e (files w1) (fastq_dir cfg) (fmt acc @ ''*.fastq*'') = Inr found"
      by (simp add: glob_def)
    with d Inr show ?thesis unfolding s'_def collect_result_def Let_def by simp
  qed
qed

lemma fold_collect_result:
  "downloaded_runs (fst (fold (collect_result e cfg) xs (s, w)))
     + failed_runs (fst (fold (collect_result e cfg) xs (s, w)))
     = downloaded_runs s + failed_runs s + length xs
   \<and> total_runs (fst (fold (collect_result e cfg) xs (s, w))) = total_runs s
   \<and> ncbi_failed_files (fst (fold (collect_result e cfg) xs (s, w))) = ncbi_failed_files s
   \<and> length (ncbi_errors (fst (fold (collect_result e cfg) xs (s, w)))) + failed_runs s
       = length (ncbi_errors s) + failed_runs (fst (fold (collect_result e cfg) xs (s, w)))"
proof (induction xs arbitrary: s w)
  case Nil
  show ?case by simp
next
  case (Cons x xs)
  obtain s1 w1 where p: "collect_result e cfg x (s, w) = (s1, w1)"
    by (cases "collect_result e cfg x (s, w)")
  from collect_result_counts [of e cfg x s w] p
  have "downloaded_runs s1 + failed_runs s1 = downloaded_runs s + failed_runs s + 1"
    and "total_runs s1 = total_runs s"
    and "ncbi_failed_files s1 = ncbi_failed_files s"
    and "length (ncbi_errors s1) + failed_runs s = length (ncbi_errors s) + failed_runs s1"
    by simp_all
  with Cons.IH [of s1 w1] p show ?case by simp
qed

lemma ncbi_download_project_data_facts:
  fixes e cfg acc m w
  defines "units \<equiv> limit_units m (resolved_runs e cfg acc w)"
  assumes pool: "0 < max_concurrent_downloads cfg"
  shows "\<exists>s w'. ncbi_download_project_data e cfg acc m w = Inr (s, w')
           \<and> total_runs s = length units
           \<and> downloaded_runs s + failed_runs s
               = length (completion_order e (map sra_accession units))
           \<and> length (ncbi_errors s) = failed_runs s
           \<and> ncbi_failed_files s = 0"
proof -
  obtain all w1 where g: "get_project_runs e cfg acc
        (log_info (''Starting download for project: '' @ acc) w) = (all, w1)"
    by (cases "get_project_runs e cfg acc
        (log_info (''Starting download for project: '' @ acc) w)")
  then have u: "units = limit_units m all"
    by (simp add: units_def resolved_runs_def)
  define s0 where "s0 = \<lparr>ncbi_project_accession = acc, total_runs = length units,
      downloaded_runs = 0, failed_runs = 0, ncbi_downloaded_files = 0, ncbi_failed_files = 0,
      ncbi_errors = []\<rparr>"
  define w2 where "w2 = write_file (joinpath (metadata_dir cfg) (acc @ ''_metadata.json''))
                 (dump_ncbi_metadata e acc units (strftime e)) w1"
  obtain sF wF where f: "fold (collect_result e cfg)
        (completion_order e (map sra_accession units)) (s0, w2) = (sF, wF)"
    by (cases "fold (collect_result e cfg) (completion_order e (map sra_accession units)) (s0, w2)")
  from fold_collect_result [of e cfg "completion_order e (map sra_accession units)" s0 w2] f
  have "downloaded_runs sF + failed_runs sF = length (completion_order e (map sra_accession units))"
    and "total_runs sF = length units"
    and "length (ncbi_errors sF) = failed_runs sF"
    and "ncbi_failed_files sF = 0"
    by (simp_all add: s0_def)
  moreover have "\<exists>w'. ncbi_download_project_data e cfg acc m w = Inr (sF, w')"
    unfolding ncbi_download_project_data_def Let_def
    using g f pool by (simp add: u s0_def w2_def)
  ultimately show ?thesis by blast
qed

section \<open>The results of the transfers\<close>

text \<open>
  The loops over files, runs, samples and run accessions, read through what
  \<^verbatim>\<open>download_fastq_file\<close> and \<^verbatim>\<open>download_sra_run\<close> returned: the counters of the summary
  count those results.
\<close>

lemma tally_Nil [simp]: "tally [] s = s"
  by (simp add: tally_def)

lemma tally_Cons:
  "tally (b # bs) s
     = tally bs (if b then s\<lparr>downloaded_files := downloaded_files s + 1\<rparr>
                 else s\<lparr>failed_files := failed_files s + 1\<rparr>)"
  by (simp add: tally_def)

lemma tally_append: "tally (bs @ cs) s = tally cs (tally bs s)"
  by (simp add: tally_def)

lemma download_files_transfers:
  "download_files e cfg acc fs (ok, s, w)
     = (fst (snd (file_transfers e cfg acc fs w)),
        ok \<and> list_all (\<lambda>b. b) (fst (file_transfers e cfg acc fs w)),
        tally (fst (file_transfers e cfg acc fs w)) s,
        snd (snd (file_transfers e cfg acc fs w)))"
proof (induction fs arbitrary: ok s w)
  case Nil
  show ?case by simp
next
  case (Cons f fs)
  show ?case
  proof (cases "eligible f")
    case False
    with Cons show ?thesis by simp
  next
    case True
    show ?thesis
    proof (cases "download_fastq_file e cfg acc (filename f) f w")
      case (Inl x)
      with True show ?thesis by simp
    next
      case (Inr r)
      obtain b w' where r: "r = (b, w')" by (cases r)
      show ?thesis
        using True Inr r Cons.IH [of ok "s\<lparr>downloaded_files := downloaded_files s + 1\<rparr>" w']
          Cons.IH [of False "s\<lparr>failed_files := failed_files s + 1\<rparr>" w']
        by (cases b) (simp_all add: split_beta tally_Cons)
    qed
  qed
qed

lemma download_runs_transfers:
  "download_runs e cfg runs (ok, s, w)
     = (fst (snd (run_transfers e cfg runs w)),
        ok \<and> list_all (\<lambda>b. b) (fst (run_transfers e cfg runs w)),
        tally (fst (run_transfers e cfg runs w)) s,
        snd (snd (run_transfers e cfg runs w)))"
proof (induction runs arbitrary: ok s w)
  case Nil
  show ?case by simp
next
  case (Cons r rs)
  obtain bs x w' where f: "file_transfers e cfg (run_accession r) (run_files r) w = (bs, x, w')"
    by (cases "file_transfers e cfg (run_accession r) (run_files r) w")
  show ?case
  proof (cases x)
    case None
    with f Cons.IH [of "ok \<and> list_all (\<lambda>b. b) bs" "tally bs s" w'] show ?thesis
      by (simp add: download_files_transfers split_beta tally_append)
  next
    case (Some y)
    with f show ?thesis by (simp add: download_files_transfers)
  qed
qed

lemma file_transfers_length:
  "(if fst (snd (file_transfers e cfg acc fs w)) = None
    then length (fst (file_transfers e cfg acc fs w)) = length (filter eligible fs)
    else length (fst (file_transfers e cfg acc fs w)) < length (filter eligible fs))"
proof (induction fs arbitrary: w)
  case Nil
  show ?case by simp
next
  case (Cons f fs)
  show ?case
  proof (cases "eligible f")
    case False
    with Cons show ?thesis by simp
  next
    case True
    show ?thesis
    proof (cases "download_fastq_file e cfg acc (filename f) f w")
      case (Inl x)
      with True show ?thesis by simp
    next
      case (Inr r)
      obtain b w' where r: "r = (b, w')" by (cases r)
      with True Inr Cons.IH [of w'] show ?thesis
        by (simp add: split_beta split: if_splits)
    qed
  qed
qed

lemma run_transfers_length:
  "(if fst (snd (run_transfers e cfg runs w)) = None
    then length (fst (run_transfers e cfg runs w)) = eligible_count runs
    else length (fst (run_transfers e cfg runs w)) < eligible_count runs)"
proof (induction runs arbitrary: w)
  case Nil
  show ?case by (simp add: eligible_count_def)
next
  case (Cons r rs)
  obtain bs x w' where f: "file_transfers e cfg (run_accession r) (run_files r) w = (bs, x, w')"
    by (cases "file_transfers e cfg (run_accession r) (run_files r) w")
  have n: "eligible_count (r # rs) = length (filter eligible (run_files r)) + eligible_count rs"
    by (simp add: eligible_count_def)
  have l: "if x = None then length bs = length (filter eligible (run_files r))
           else length bs < length (filter eligible (run_files r))"
    using file_transfers_length [of e cfg "run_accession r" "run_files r" w]
    unfolding f by (auto split: if_splits)
  show ?case
  proof (cases x)
    case None
    with f l Cons.IH [of w'] show ?thesis
      unfolding n by (simp add: split_beta split: if_splits)
  next
    case (Some y)
    with f l show ?thesis unfolding n by simp
  qed
qed

lemma process_sample_transfers:
  fixes e cfg smp s w
  defines "runs \<equiv> fst (get_sample_runs e cfg (smp_accession smp) w)"
  defines "t \<equiv> run_transfers e cfg runs (snd (get_sample_runs e cfg (smp_accession smp) w))"
  defines "good \<equiv> runs \<noteq> [] \<and> fst (snd t) = None \<and> list_all (\<lambda>b. b) (fst t)"
  shows "fst (process_sample e cfg smp (s, w))
       = (tally (fst t) s)
           \<lparr>downloaded_samples := downloaded_samples s + (if good then 1 else 0),
            failed_samples := failed_samples s + (if good then 0 else 1),
            errors := errors s @ sample_errors smp runs (fst (snd t))\<rparr>"
proof -
  obtain w1 where g: "get_sample_runs e cfg (smp_accession smp) w = (runs, w1)"
    unfolding runs_def by (cases "get_sample_runs e cfg (smp_accession smp) w") simp
  then have t: "t = run_transfers e cfg runs w1" by (simp add: t_def)
  obtain bs x w2 where r: "run_transfers e cfg runs w1 = (bs, x, w2)"
    by (cases "run_transfers e cfg runs w1")
  show ?thesis
  proof (cases "runs = []")
    case True
    with g r show ?thesis
      unfolding good_def t process_sample_def Let_def
      by (simp add: sample_errors_def tally_def)
  next
    case False
    with g r show ?thesis
      unfolding good_def t process_sample_def Let_def
      by (cases x; cases "list_all (\<lambda>b. b) bs")
         (simp_all add: download_runs_transfers sample_errors_def tally_def)
  qed
qed

lemma fold_process_sample_files:
  "downloaded_files (fst (fold (process_sample e cfg) xs st))
     = downloaded_files (fst st) + length (filter (\<lambda>b. b) (sample_transfers e cfg xs st))
   \<and> failed_files (fst (fold (process_sample e cfg) xs st))
     = failed_files (fst st) + length (filter Not (sample_transfers e cfg xs st))"
proof (induction xs arbitrary: st)
  case Nil
  show ?case by simp
next
  case (Cons x xs)
  obtain s w where st: "st = (s, w)" by (cases st)
  from Cons.IH [of "process_sample e cfg x st"]
  show ?case
    unfolding st by (simp add: process_sample_transfers tally_def)
qed

lemma collect_result_outcome:
  "downloaded_runs (fst (collect_result e cfg a (s, w)))
     = downloaded_runs s + (if fst (download_sra_run e cfg a w) = Inr True then 1 else 0)
   \<and> failed_runs (fst (collect_result e cfg a (s, w)))
     = failed_runs s + (if fst (download_sra_run e cfg a w) = Inr True then 0 else 1)"
proof -
  obtain r w1 where d: "download_sra_run e cfg a w = (r, w1)"
    by (cases "download_sra_run e cfg a w")
  show ?thesis
  proof (cases r)
    case (Inl x)
    with d show ?thesis unfolding collect_result_def Let_def by simp
  next
    case (Inr success)
    with d have "glob_error e (fmt a @ ''*.fastq*'') = None"
      using download_sra_run_pattern_ok [of e cfg a w success] by simp
    then obtain found where "glob e (files w1) (fastq_dir cfg) (fmt a @ ''*.fastq*'') = Inr found"
      by (simp add: glob_def)
    with d Inr show ?thesis unfolding collect_result_def Let_def by simp
  qed
qed

lemma fold_collect_result_outcomes:
  "downloaded_runs (fst (fold (collect_result e cfg) xs st))
     = downloaded_runs (fst st) + length (filter (\<lambda>r. r = Inr True) (run_outcomes e cfg xs st))
   \<and> failed_runs (fst (fold (collect_result e cfg) xs st))
     = failed_runs (fst st) + length (filter (\<lambda>r. r \<noteq> Inr True) (run_outcomes e cfg xs st))"
proof (induction xs arbitrary: st)
  case Nil
  show ?case by simp
next
  case (Cons x xs)
  obtain s w where st: "st = (s, w)" by (cases st)
  from Cons.IH [of "collect_result e cfg x st"] collect_result_outcome [of e cfg x s w]
  show ?case
    unfolding st by simp
qed

lemma ena_download_project_data_fold:
  "fst (ena_download_project_data e cfg acc m w)
     = fst (fold (process_sample e cfg) (limit_units m (resolved_samples e cfg acc w))
              (ena_start e cfg acc m w))"
  unfolding ena_download_project_data_def ena_start_def resolved_samples_def Let_def
  by (simp add: split_beta)

lemma ncbi_download_project_data_fold:
  assumes "0 < max_concurrent_downloads cfg"
  shows "\<exists>w'. ncbi_download_project_data e cfg acc m w
     = Inr (fst (fold (collect_result e cfg)
                   (completion_order e (map sra_accession
                      (limit_units m (resolved_runs e cfg acc w))))
                   (ncbi_start e cfg acc m w)), w')"
  unfolding ncbi_download_project_data_def ncbi_start_def resolved_runs_def Let_def
  using assms by (simp add: split_beta)

section \<open>The unit limit\<close>







section \<open>Samples and their files\<close>



text \<open>
  Claim C5 (the code misses it): in the ENA acquisition a failed file and the sample it
  fails are counted without an entry in the error list. Project \<open>PRJ1\<close> has one sample
  with one file whose transfer fails: the summary counts one failed file and one failed
  sample, and its error list is empty.
\<close>

theorem failed_file_leaves_no_error_entry:
  "fst (ena_download_project_data failing_archive demo_cfg ''PRJ1'' None empty_world)
     = \<lparr>project_accession = ''PRJ1'', total_samples = 1, downloaded_samples = 0,
        failed_samples = 1, downloaded_files = 0, failed_files = 1, errors = []\<rparr>"
  by code_simp

section \<open>Failures of remote calls\<close>

lemma fetch_xml_failure:
  assumes "remote_failure (http_get e (requests w) url ps t)"
  shows "\<exists>x. fst (fetch_xml e url ps t w) = Inl x"
  using assms
  by (auto simp add: remote_failure_def fetch_xml_def Let_def raise_for_status_def
        split: http_result.splits)

lemma get_project_samples_failure:
  assumes "remote_failure (http_get e (requests w) (ena_base_url cfg @ ''/'' @ acc) []
                             (ena_timeout cfg))"
  shows "fst (get_project_samples e cfg acc w) = []
       \<and> (\<exists>m. last (log (snd (get_project_samples e cfg acc w))) = (ERROR, m))"
proof -
  let ?w0 = "log_info (''Getting samples for project: '' @ acc) w"
  from assms have "remote_failure (http_get e (requests ?w0) (ena_base_url cfg @ ''/'' @ acc) []
                             (ena_timeout cfg))" by simp
  from fetch_xml_failure [OF this]
  obtain x w1 where "fetch_xml e (ena_base_url cfg @ ''/'' @ acc) [] (ena_timeout cfg) ?w0 = (Inl x, w1)"
    by (metis fst_conv surj_pair)
  then show ?thesis
    unfolding get_project_samples_def Let_def by (simp add: log_error_def)
qed

lemma get_sample_runs_failure:
  assumes "remote_failure (http_get e (requests w) (ena_base_url cfg @ ''/'' @ fmt acc) []
                             (ena_timeout cfg))"
  shows "fst (get_sample_runs e cfg acc w) = []
       \<and> (\<exists>m. last (log (snd (get_sample_runs e cfg acc w))) = (ERROR, m))"
proof -
  let ?w0 = "log_info (''Getting runs for sample: '' @ fmt acc) w"
  from assms have "remote_failure (http_get e (requests ?w0) (ena_base_url cfg @ ''/'' @ fmt acc) []
                             (ena_timeout cfg))" by simp
  from fetch_xml_failure [OF this]
  obtain x w1 where "fetch_xml e (ena_base_url cfg @ ''/'' @ fmt acc) [] (ena_timeout cfg) ?w0 = (Inl x, w1)"
    by (metis fst_conv surj_pair)
  then show ?thesis
    unfolding get_sample_runs_def Let_def by (simp add: log_error_def)
qed

lemma get_project_details_failure:
  assumes "remote_failure (http_get e (requests w) (ncbi_base_url cfg @ ''/esummary.fcgi'')
                             (summary_params ident) (ncbi_timeout cfg))"
  shows "fst (get_project_details e cfg ident w) = None
       \<and> (\<exists>m. last (log (snd (get_project_details e cfg ident w))) = (ERROR, m))"
proof -
  from fetch_xml_failure [OF assms]
  obtain x w1 where "fetch_xml e (ncbi_base_url cfg @ ''/esummary.fcgi'') (summary_params ident)
                       (ncbi_timeout cfg) w = (Inl x, w1)"
    by (metis fst_conv surj_pair)
  then show ?thesis
    unfolding get_project_details_def Let_def by (simp add: log_error_def)
qed

lemma get_project_runs_failure:
  assumes "remote_failure (http_get e (requests w) (ncbi_base_url cfg @ ''/esearch.fcgi'')
                             (search_params acc) (ncbi_timeout cfg))"
  shows "fst (get_project_runs e cfg acc w) = []
       \<and> (\<exists>m. last (log (snd (get_project_runs e cfg acc w))) = (ERROR, m))"
proof -
  let ?w0 = "log_info (''Getting runs for project: '' @ acc) w"
  from assms have "remote_failure (http_get e (requests ?w0) (ncbi_base_url cfg @ ''/esearch.fcgi'')
                             (search_params acc) (ncbi_timeout cfg))" by simp
  from fetch_xml_failure [OF this]
  obtain x w1 where "fetch_xml e (ncbi_base_url cfg @ ''/esearch.fcgi'') (search_params acc)
                       (ncbi_timeout cfg) ?w0 = (Inl x, w1)"
    by (metis fst_conv surj_pair)
  then show ?thesis
    unfolding get_project_runs_def Let_def
    by (simp add: log_error_def)
qed

lemma get_run_details_failure:
  assumes "remote_failure (http_get e (requests w) (ncbi_base_url cfg @ ''/esummary.fcgi'')
                             (summary_params ident) (ncbi_timeout cfg))"
  shows "fst (get_run_details e cfg ident w) = None
       \<and> (\<exists>m. last (log (snd (get_run_details e cfg ident w))) = (ERROR, m))"
proof -
  from fetch_xml_failure [OF assms]
  obtain x w1 where "fetch_xml e (ncbi_base_url cfg @ ''/esummary.fcgi'') (summary_params ident)
                       (ncbi_timeout cfg) w = (Inl x, w1)"
    by (metis fst_conv surj_pair)
  then show ?thesis
    unfolding get_run_details_def Let_def by (simp add: log_error_def)
qed

lemma collect_runs_skips:
  assumes "fst (get_run_details e cfg i w) = None"
  shows "fst (collect_runs e cfg (i # ids) w)
       = fst (collect_runs e cfg ids (snd (get_run_details e cfg i w)))"
  using assms by (simp add: split_beta Let_def)

text \<open>
  Claim C6: a remote call that raises or answers with a status from 400 to 599 is caught
  inside the operation that made it: the listing operations return the empty list, the
  resolution of one project and of one run return \<^verbatim>\<open>None\<close>, and the error is logged. A
  run whose details could not be fetched is left out of the list that
  \<^verbatim>\<open>get_project_runs\<close> collects, which goes on with the remaining ids. The operations are
  total functions into lists and options: every exception of their \<^verbatim>\<open>try\<close> blocks is a
  branch that ends in such a value.
\<close>

theorem backend_failure_is_empty_result:
  "(remote_failure (http_get e (requests w) (ena_base_url cfg @ ''/'' @ acc) [] (ena_timeout cfg))
    \<longrightarrow> fst (get_project_samples e cfg acc w) = []
        \<and> (\<exists>m. last (log (snd (get_project_samples e cfg acc w))) = (ERROR, m)))
   \<and> (remote_failure (http_get e (requests w) (ena_base_url cfg @ ''/'' @ fmt sacc) []
                        (ena_timeout cfg))
    \<longrightarrow> fst (get_sample_runs e cfg sacc w) = []
        \<and> (\<exists>m. last (log (snd (get_sample_runs e cfg sacc w))) = (ERROR, m)))
   \<and> (remote_failure (http_get e (requests w) (ncbi_base_url cfg @ ''/esummary.fcgi'')
                        (summary_params ident) (ncbi_timeout cfg))
    \<longrightarrow> fst (get_project_details e cfg ident w) = None
        \<and> (\<exists>m. last (log (snd (get_project_details e cfg ident w))) = (ERROR, m)))
   \<and> (remote_failure (http_get e (requests w) (ncbi_base_url cfg @ ''/esearch.fcgi'')
                        (search_params acc) (ncbi_timeout cfg))
    \<longrightarrow> fst (get_project_runs e cfg acc w) = []
        \<and> (\<exists>m. last (log (snd (get_project_runs e cfg acc w))) = (ERROR, m)))
   \<and> (remote_failure (http_get e (requests w) (ncbi_base_url cfg @ ''/esummary.fcgi'')
                        (summary_params ident) (ncbi_timeout cfg))
    \<longrightarrow> fst (get_run_details e cfg ident w) = None
        \<and> (\<exists>m. last (log (snd (get_run_details e cfg ident w))) = (ERROR, m))
        \<and> fst (collect_runs e cfg (ident # ids) w)
            = fst (collect_runs e cfg ids (snd (get_run_details e cfg ident w))))"
proof (intro conjI impI)
  assume h: "remote_failure (http_get e (requests w) (ncbi_base_url cfg @ ''/esummary.fcgi'')
                        (summary_params ident) (ncbi_timeout cfg))"
  from get_run_details_failure [OF h]
  show "fst (collect_runs e cfg (ident # ids) w)
            = fst (collect_runs e cfg ids (snd (get_run_details e cfg ident w)))"
    by (intro collect_runs_skips) (rule conjunct1)
qed (rule get_project_samples_failure [THEN conjunct1]
        get_project_samples_failure [THEN conjunct2]
        get_sample_runs_failure [THEN conjunct1] get_sample_runs_failure [THEN conjunct2]
        get_project_details_failure [THEN conjunct1] get_project_details_failure [THEN conjunct2]
        get_project_runs_failure [THEN conjunct1] get_project_runs_failure [THEN conjunct2]
        get_run_details_failure [THEN conjunct1] get_run_details_failure [THEN conjunct2],
      assumption)+

theorem backend_failure_is_empty_result_witness:
  "(fst (get_project_samples broken demo_cfg ''PRJ10'' empty_world) = []
      \<and> (\<exists>m. last (log (snd (get_project_samples broken demo_cfg ''PRJ10'' empty_world)))
                = (ERROR, m)))
   \<and> (fst (get_sample_runs broken demo_cfg (Some ''S1'') empty_world) = []
      \<and> (\<exists>m. last (log (snd (get_sample_runs broken demo_cfg (Some ''S1'') empty_world)))
                = (ERROR, m)))
   \<and> (fst (get_project_details broken demo_cfg (Some ''7'') empty_world) = None
      \<and> (\<exists>m. last (log (snd (get_project_details broken demo_cfg (Some ''7'') empty_world)))
                = (ERROR, m)))
   \<and> (fst (get_project_runs broken demo_cfg ''PRJ10'' empty_world) = []
      \<and> (\<exists>m. last (log (snd (get_project_runs broken demo_cfg ''PRJ10'' empty_world)))
                = (ERROR, m)))
   \<and> (fst (get_run_details broken demo_cfg (Some ''7'') empty_world) = None
      \<and> (\<exists>m. last (log (snd (get_run_details broken demo_cfg (Some ''7'') empty_world)))
                = (ERROR, m))
      \<and> fst (collect_runs broken demo_cfg [Some ''7'', Some ''8''] empty_world)
          = fst (collect_runs broken demo_cfg [Some ''8'']
                   (snd (get_run_details broken demo_cfg (Some ''7'') empty_world))))"
proof -
  note t = backend_failure_is_empty_result
    [of broken empty_world demo_cfg "''PRJ10''" "Some ''S1''" "Some ''7''" "[Some ''8'']"]
  have h1: "remote_failure (http_get broken (requests empty_world)
              (ena_base_url demo_cfg @ ''/'' @ ''PRJ10'') [] (ena_timeout demo_cfg))"
    by code_simp
  have h2: "remote_failure (http_get broken (requests empty_world)
              (ena_base_url demo_cfg @ ''/'' @ fmt (Some ''S1'')) [] (ena_timeout demo_cfg))"
    by code_simp
  have h3: "remote_failure (http_get broken (requests empty_world)
              (ncbi_base_url demo_cfg @ ''/esummary.fcgi'') (summary_params (Some ''7''))
              (ncbi_timeout demo_cfg))"
    by code_simp
  have h4: "remote_failure (http_get broken (requests empty_world)
              (ncbi_base_url demo_cfg @ ''/esearch.fcgi'') (search_params ''PRJ10'')
              (ncbi_timeout demo_cfg))"
    by code_simp
  note c1 = t [THEN conjunct1, THEN mp, OF h1]
  note c2 = t [THEN conjunct2, THEN conjunct1, THEN mp, OF h2]
  note c3 = t [THEN conjunct2, THEN conjunct2, THEN conjunct1, THEN mp, OF h3]
  note c4 = t [THEN conjunct2, THEN conjunct2, THEN conjunct2, THEN conjunct1, THEN mp, OF h4]
  note c5 = t [THEN conjunct2, THEN conjunct2, THEN conjunct2, THEN conjunct2, THEN mp, OF h3]
  show ?thesis by (rule conjI [OF c1 conjI [OF c2 conjI [OF c3 conjI [OF c4 c5]]]])
qed

end
